theory Spec2Isabelle
  imports Complex_Main
begin

section \<open>Values and data model\<close>

text \<open>
  The application is TypeScript running in a browser. Values that are handled untyped (the
  generative model's JSON answer, the fields of a stored document) are modelled by
  \<open>jsval\<close>; the typed entities of \<open>contexts/DataContext.tsx\<close> are records. A stored
  amount is a finite number, as the forms produce it; what the code computes from amounts
  is a JavaScript number, \<open>jsnum\<close> below, which can also be an infinity or \<open>NaN\<close>.
\<close>

text \<open>
  A \<open>Date\<close>, by its calendar fields in local time; \<open>month\<close> is JavaScript's month index
  (0 = January).
\<close>

record jsdate =
  year :: int
  month :: nat
  day :: nat
  hours :: nat
  minutes :: nat
  seconds :: nat
  milliseconds :: nat

datatype jsval =
    Undefined
  | Null
  | Bool bool
  | Num real
  | Str string
  | DateV jsdate
  | Arr "jsval list"
  | Obj "(string \<times> jsval) list"

text \<open>JavaScript truthiness, and \<open>a || b\<close>.\<close>

fun truthy :: "jsval \<Rightarrow> bool" where
  "truthy Undefined = False"
| "truthy Null = False"
| "truthy (Bool b) = b"
| "truthy (Num x) = (x \<noteq> 0)"
| "truthy (Str s) = (s \<noteq> [])"
| "truthy (DateV d) = True"
| "truthy (Arr xs) = True"
| "truthy (Obj kvs) = True"

definition js_or :: "jsval \<Rightarrow> jsval \<Rightarrow> jsval" where
  "js_or a b = (if truthy a then a else b)"

datatype txn_type = Income | Expense

record Account =
  id_a :: string
  name_a :: string
  type_a :: string
  balance :: real
  createdAt_a :: jsdate

record Transaction =
  id_t :: string
  accountId :: string
  type_t :: txn_type
  amount :: real
  category :: string
  description :: string
  date :: jsdate
  notes_t :: "string option"
  receiptUrl :: "string option"
  createdAt_t :: jsdate

text \<open>The interface \<open>AnalysisInsight\<close> of \<open>utils/gemini.ts\<close>. TypeScript's types are erased
  at run time, so each field holds whatever value the code stores there.\<close>

record AnalysisInsight =
  type_i :: jsval
  title :: jsval
  message :: jsval
  recommendation :: jsval

section \<open>JavaScript numbers\<close>

text \<open>
  A number is a finite value, an infinity or \<open>NaN\<close>. An arithmetic operation takes the
  exact result and rounds it to the nearest double; a result at or beyond the overflow
  threshold of the double format becomes an infinity. How a value within range is rounded
  is the parameter \<open>nearest\<close>. Zero is not signed here: the sums of the source start at
  \<open>0\<close> and never produce \<open>-0\<close>.
\<close>

datatype jsnum = Fin real | PosInf | NegInf | NaN

record Arith =
  nearest :: "real \<Rightarrow> real"

definition overflowLimit :: real where
  "overflowLimit = 2 ^ 1024 - 2 ^ 970"

definition fl :: "Arith \<Rightarrow> real \<Rightarrow> jsnum" where
  "fl A x =
     (if x \<ge> overflowLimit then PosInf
      else if x \<le> - overflowLimit then NegInf
      else Fin (nearest A x))"

fun js_neg :: "jsnum \<Rightarrow> jsnum" where
  "js_neg (Fin x) = Fin (- x)"
| "js_neg PosInf = NegInf"
| "js_neg NegInf = PosInf"
| "js_neg NaN = NaN"

fun js_add :: "Arith \<Rightarrow> jsnum \<Rightarrow> jsnum \<Rightarrow> jsnum" where
  "js_add A NaN y = NaN"
| "js_add A x NaN = NaN"
| "js_add A (Fin a) (Fin b) = fl A (a + b)"
| "js_add A (Fin a) PosInf = PosInf"
| "js_add A (Fin a) NegInf = NegInf"
| "js_add A PosInf NegInf = NaN"
| "js_add A PosInf y = PosInf"
| "js_add A NegInf PosInf = NaN"
| "js_add A NegInf y = NegInf"

definition js_sub :: "Arith \<Rightarrow> jsnum \<Rightarrow> jsnum \<Rightarrow> jsnum" where
  "js_sub A x y = js_add A x (js_neg y)"

text \<open>Multiplication by a finite constant, and division.\<close>

fun js_times :: "Arith \<Rightarrow> jsnum \<Rightarrow> real \<Rightarrow> jsnum" where
  "js_times A (Fin x) k = fl A (x * k)"
| "js_times A PosInf k = (if k > 0 then PosInf else if k < 0 then NegInf else NaN)"
| "js_times A NegInf k = (if k > 0 then NegInf else if k < 0 then PosInf else NaN)"
| "js_times A NaN k = NaN"

fun js_div :: "Arith \<Rightarrow> jsnum \<Rightarrow> jsnum \<Rightarrow> jsnum" where
  "js_div A NaN y = NaN"
| "js_div A x NaN = NaN"
| "js_div A (Fin a) (Fin b) =
     (if b \<noteq> 0 then fl A (a / b)
      else if a > 0 then PosInf else if a < 0 then NegInf else NaN)"
| "js_div A (Fin a) y = Fin 0"
| "js_div A PosInf (Fin b) = (if b \<ge> 0 then PosInf else NegInf)"
| "js_div A NegInf (Fin b) = (if b \<ge> 0 then NegInf else PosInf)"
| "js_div A x y = NaN"

fun js_abs :: "jsnum \<Rightarrow> jsnum" where
  "js_abs (Fin x) = Fin \<bar>x\<bar>"
| "js_abs PosInf = PosInf"
| "js_abs NegInf = PosInf"
| "js_abs NaN = NaN"

text \<open>Comparison with a finite constant; every comparison with \<open>NaN\<close> is false.\<close>

fun js_gt :: "jsnum \<Rightarrow> real \<Rightarrow> bool" where
  "js_gt (Fin x) k = (x > k)"
| "js_gt PosInf k = True"
| "js_gt NegInf k = False"
| "js_gt NaN k = False"

fun js_lt :: "jsnum \<Rightarrow> real \<Rightarrow> bool" where
  "js_lt (Fin x) k = (x < k)"
| "js_lt PosInf k = False"
| "js_lt NegInf k = True"
| "js_lt NaN k = False"

fun js_ge :: "jsnum \<Rightarrow> real \<Rightarrow> bool" where
  "js_ge (Fin x) k = (x \<ge> k)"
| "js_ge PosInf k = True"
| "js_ge NegInf k = False"
| "js_ge NaN k = False"

text \<open>\<open>v || 0\<close> for a number: zero and \<open>NaN\<close> are falsy.\<close>

definition js_or0 :: "jsnum \<Rightarrow> jsnum" where
  "js_or0 v = (if v = NaN \<or> v = Fin 0 then Fin 0 else v)"


text \<open>\<open>Number.prototype.toFixed(1)\<close> and \<open>toLocaleString()\<close> are the browser's; for a
  finite number they are parameters of the functions that print numbers.\<close>

record NumberFormat =
  toFixed1 :: "real \<Rightarrow> string"
  toLocaleString :: "real \<Rightarrow> string"

fun toFixed1_num :: "NumberFormat \<Rightarrow> jsnum \<Rightarrow> string" where
  "toFixed1_num F (Fin x) = toFixed1 F x"
| "toFixed1_num F PosInf = ''Infinity''"
| "toFixed1_num F NegInf = ''-Infinity''"
| "toFixed1_num F NaN = ''NaN''"

definition infinitySign :: string where
  "infinitySign = [CHR 0xE2, CHR 0x88, CHR 0x9E]"

fun toLocaleString_num :: "NumberFormat \<Rightarrow> jsnum \<Rightarrow> string" where
  "toLocaleString_num F (Fin x) = toLocaleString F x"
| "toLocaleString_num F PosInf = infinitySign"
| "toLocaleString_num F NegInf = ''-'' @ infinitySign"
| "toLocaleString_num F NaN = ''NaN''"

definition rupee :: string where
  "rupee = [CHR 0xE2, CHR 0x82, CHR 0xB9]"

section \<open>Aggregation shared by the pages and the insight generator\<close>

text \<open>\<open>xs.filter(t => t.type === k).reduce((sum, t) => sum + t.amount, 0)\<close>\<close>

definition sumAmounts :: "Arith \<Rightarrow> Transaction list \<Rightarrow> jsnum" where
  "sumAmounts A ts = foldl (\<lambda>sum t. js_add A sum (Fin (amount t))) (Fin 0) ts"

definition totalOf :: "Arith \<Rightarrow> txn_type \<Rightarrow> Transaction list \<Rightarrow> jsnum" where
  "totalOf A k transactions = sumAmounts A (filter (\<lambda>t. type_t t = k) transactions)"

text \<open>
  \<open>reduce((acc, t) => { acc[t.category] = (acc[t.category] || 0) + t.amount; return acc }, {})\<close>:
  the object is an association list in insertion order (category labels are ordinary
  property names, as the application's category lists are).
\<close>

definition addCategory :: "Arith \<Rightarrow> (string \<times> jsnum) list \<Rightarrow> Transaction \<Rightarrow> (string \<times> jsnum) list" where
  "addCategory A acc t =
     (case map_of acc (category t) of
        None \<Rightarrow> acc @ [(category t, js_add A (Fin 0) (Fin (amount t)))]
      | Some v \<Rightarrow>
          map (\<lambda>(k, w). if k = category t then (k, js_add A (js_or0 v) (Fin (amount t)))
                         else (k, w)) acc)"

definition expenseCategories :: "Arith \<Rightarrow> Transaction list \<Rightarrow> (string \<times> jsnum) list" where
  "expenseCategories A transactions =
     foldl (addCategory A) [] (filter (\<lambda>t. type_t t = Expense) transactions)"

text \<open>
  \<open>Object.entries(c).sort(([,a], [,b]) => b - a)[0]\<close>. The sort is stable: an entry stays
  before another unless the comparator, \<open>b - a\<close>, is positive for the pair. \<open>None\<close> is
  \<open>undefined\<close>.
\<close>

definition staysBefore :: "Arith \<Rightarrow> string \<times> jsnum \<Rightarrow> string \<times> jsnum \<Rightarrow> bool" where
  "staysBefore A x y = (\<not> js_gt (js_sub A (snd y) (snd x)) 0)"

fun insertEntry :: "Arith \<Rightarrow> string \<times> jsnum \<Rightarrow> (string \<times> jsnum) list \<Rightarrow> (string \<times> jsnum) list" where
  "insertEntry A x [] = [x]"
| "insertEntry A x (y # ys) =
     (if staysBefore A x y then x # y # ys else y # insertEntry A x ys)"

definition sortEntries :: "Arith \<Rightarrow> (string \<times> jsnum) list \<Rightarrow> (string \<times> jsnum) list" where
  "sortEntries A entries = foldr (insertEntry A) entries []"

definition topExpenseEntry :: "Arith \<Rightarrow> (string \<times> jsnum) list \<Rightarrow> (string \<times> jsnum) option" where
  "topExpenseEntry A entries =
     (case sortEntries A entries of [] \<Rightarrow> None | e # rest \<Rightarrow> Some e)"

section \<open>Rule-based fallback insights (utils/gemini.ts, generateFallbackInsights)\<close>

definition savingsRate :: "Arith \<Rightarrow> Transaction list \<Rightarrow> jsnum" where
  "savingsRate A transactions =
     (let totalIncome = totalOf A Income transactions;
          totalExpenses = totalOf A Expense transactions
      in if js_gt totalIncome 0
         then js_times A (js_div A (js_sub A totalIncome totalExpenses) totalIncome) 100
         else Fin 0)"

definition gettingStarted :: AnalysisInsight where
  "gettingStarted = \<lparr>
     type_i = Str ''info'',
     title = Str ''Getting Started'',
     message = Str ''Start adding transactions to get personalized financial insights.'',
     recommendation = Str ''Add your income and expense transactions to see detailed analysis.'' \<rparr>"

definition excellentSavings :: "NumberFormat \<Rightarrow> jsnum \<Rightarrow> AnalysisInsight" where
  "excellentSavings F rate = \<lparr>
     type_i = Str ''positive'',
     title = Str ''Excellent Savings Rate'',
     message = Str (''Your savings rate is '' @ toFixed1_num F rate @
                    ''%. You're doing great at managing your finances!''),
     recommendation = Str ''Consider investing your surplus savings for better returns.'' \<rparr>"

definition lowSavings :: "NumberFormat \<Rightarrow> jsnum \<Rightarrow> AnalysisInsight" where
  "lowSavings F rate = \<lparr>
     type_i = Str ''warning'',
     title = Str ''Low Savings Rate'',
     message = Str (''Your savings rate is '' @ toFixed1_num F rate @
                    ''%. This is below the recommended 20%.''),
     recommendation = Str ''Review your expenses and identify areas where you can cut back.'' \<rparr>"

definition overspending :: "NumberFormat \<Rightarrow> jsnum \<Rightarrow> AnalysisInsight" where
  "overspending F diff = \<lparr>
     type_i = Str ''warning'',
     title = Str ''Spending More Than Earning'',
     message = Str (''You're spending '' @ rupee @ toLocaleString_num F (js_abs diff) @
                    '' more than you earn.''),
     recommendation = Str ''Urgently review your expenses and create a budget to avoid debt.'' \<rparr>"

definition topCategory :: "Arith \<Rightarrow> NumberFormat \<Rightarrow> string \<Rightarrow> jsnum \<Rightarrow> jsnum \<Rightarrow> AnalysisInsight" where
  "topCategory A F c a totalExpenses = \<lparr>
     type_i = Str ''info'',
     title = Str ''Top Spending Category'',
     message = Str (c @ '' accounts for ''
                    @ toFixed1_num F (js_times A (js_div A a totalExpenses) 100)
                    @ ''% of your expenses ('' @ rupee @ toLocaleString_num F a @ '').''),
     recommendation = Str ''Monitor this category closely and look for optimization opportunities.'' \<rparr>"

definition moreDataNeeded :: AnalysisInsight where
  "moreDataNeeded = \<lparr>
     type_i = Str ''info'',
     title = Str ''More Data Needed'',
     message = Str ''Add more transactions to get better financial insights and patterns.'',
     recommendation = Str ''Try to record all your income and expenses for comprehensive analysis.'' \<rparr>"

text \<open>The three blocks of the function, each the list of insights it pushes.\<close>

definition savingsInsights :: "Arith \<Rightarrow> NumberFormat \<Rightarrow> Transaction list \<Rightarrow> AnalysisInsight list" where
  "savingsInsights A F transactions =
     (let rate = savingsRate A transactions in
      if js_gt rate 20 then [excellentSavings F rate]
      else if js_lt rate 10 \<and> js_ge rate 0 then [lowSavings F rate]
      else if js_lt rate 0 then
        [overspending F (js_sub A (totalOf A Income transactions)
                                  (totalOf A Expense transactions))]
      else [])"

definition categoryInsights :: "Arith \<Rightarrow> NumberFormat \<Rightarrow> Transaction list \<Rightarrow> AnalysisInsight list" where
  "categoryInsights A F transactions =
     (let totalExpenses = totalOf A Expense transactions in
      case topExpenseEntry A (expenseCategories A transactions) of
        None \<Rightarrow> []
      | Some (c, a) \<Rightarrow>
          if js_gt totalExpenses 0 then [topCategory A F c a totalExpenses] else [])"

definition frequencyInsights :: "Transaction list \<Rightarrow> AnalysisInsight list" where
  "frequencyInsights transactions =
     (if length transactions < 5 then [moreDataNeeded] else [])"

definition generateFallbackInsights ::
  "Arith \<Rightarrow> NumberFormat \<Rightarrow> Transaction list \<Rightarrow> AnalysisInsight list" where
  "generateFallbackInsights A F transactions =
     (if length transactions = 0 then [gettingStarted]
      else savingsInsights A F transactions @ categoryInsights A F transactions
           @ frequencyInsights transactions)"

section \<open>The earlier inline fallback (src/unnamed/part_004, catch block of generateFinancialInsights)\<close>

text \<open>
  The earlier copy of \<open>utils/gemini.ts\<close> computes the savings rate without guarding the
  division, so the quotient is \<open>Infinity\<close>, \<open>-Infinity\<close> or \<open>NaN\<close> when the income total
  is zero.
\<close>

definition legacySavingsRate :: "Arith \<Rightarrow> Transaction list \<Rightarrow> jsnum" where
  "legacySavingsRate A transactions =
     (if length transactions > 0
      then js_times A
             (js_div A (js_sub A (totalOf A Income transactions) (totalOf A Expense transactions))
                       (totalOf A Income transactions)) 100
      else Fin 0)"

definition legacyExcellentSavings :: "NumberFormat \<Rightarrow> jsnum \<Rightarrow> AnalysisInsight" where
  "legacyExcellentSavings F rate = \<lparr>
     type_i = Str ''positive'',
     title = Str ''Excellent Savings Rate'',
     message = Str (''Your savings rate is '' @ toFixed1_num F rate @
                    ''%. You're doing great at managing your finances!''),
     recommendation = Str ''Consider investing your surplus savings for better returns.'' \<rparr>"

definition legacyLowSavings :: "NumberFormat \<Rightarrow> jsnum \<Rightarrow> AnalysisInsight" where
  "legacyLowSavings F rate = \<lparr>
     type_i = Str ''warning'',
     title = Str ''Low Savings Rate'',
     message = Str (''Your savings rate is '' @ toFixed1_num F rate @
                    ''%. This is below the recommended 20%.''),
     recommendation = Str ''Review your expenses and identify areas where you can cut back.'' \<rparr>"

definition legacyTopCategory :: "NumberFormat \<Rightarrow> string \<Rightarrow> jsnum \<Rightarrow> AnalysisInsight" where
  "legacyTopCategory F c a = \<lparr>
     type_i = Str ''info'',
     title = Str ''Top Spending Category'',
     message = Str (''Your highest spending category is '' @ c @ '' with '' @ rupee @
                    toLocaleString_num F a @ ''.''),
     recommendation = Str ''Monitor this category closely and look for optimization opportunities.'' \<rparr>"

definition legacyFallbackInsights ::
  "Arith \<Rightarrow> NumberFormat \<Rightarrow> Transaction list \<Rightarrow> AnalysisInsight list" where
  "legacyFallbackInsights A F transactions =
     (let rate = legacySavingsRate A transactions in
      (if js_gt rate 20 then [legacyExcellentSavings F rate]
       else if js_lt rate 10 then [legacyLowSavings F rate]
       else [])
      @ (if length transactions > 0
         then (case topExpenseEntry A (expenseCategories A transactions) of
                 None \<Rightarrow> []
               | Some (c, a) \<Rightarrow> [legacyTopCategory F c a])
         else []))"

section \<open>Printing numbers and dates\<close>

text \<open>Decimal digits of a natural number, and \<open>String.prototype.padStart\<close>.\<close>

definition digit10 :: "nat \<Rightarrow> char" where
  "digit10 n = ''0123456789'' ! (n mod 10)"

fun dec :: "nat \<Rightarrow> string" where
  "dec n = (if n < 10 then [digit10 n] else dec (n div 10) @ [digit10 n])"

declare dec.simps [simp del]

definition padStart :: "nat \<Rightarrow> char \<Rightarrow> string \<Rightarrow> string" where
  "padStart k c s = replicate (k - length s) c @ s"

definition pad2 :: "nat \<Rightarrow> string" where
  "pad2 n = padStart 2 (CHR ''0'') (dec n)"

text \<open>
  \<open>Date.prototype.toISOString()\<close> of a date given by its UTC fields: four digits for the
  years 0 to 9999, a sign and six digits otherwise. \<open>isoDay\<close> is the part before the
  \<open>T\<close>.
\<close>

definition isoYear :: "int \<Rightarrow> string" where
  "isoYear y =
     (if 0 \<le> y \<and> y \<le> 9999 then padStart 4 (CHR ''0'') (dec (nat y))
      else (if y < 0 then ''-'' else ''+'') @ padStart 6 (CHR ''0'') (dec (nat \<bar>y\<bar>)))"

definition isoDay :: "jsdate \<Rightarrow> string" where
  "isoDay d = isoYear (year d) @ ''-'' @ pad2 (month d + 1) @ ''-'' @ pad2 (day d)"

definition toISOString :: "jsdate \<Rightarrow> string" where
  "toISOString d =
     isoDay d @ ''T'' @ pad2 (hours d) @ '':'' @ pad2 (minutes d) @ '':'' @ pad2 (seconds d)
     @ ''.'' @ padStart 3 (CHR ''0'') (dec (milliseconds d)) @ ''Z''"

text \<open>The characters a printed date is made of.\<close>

definition date_chars :: "char set" where
  "date_chars = set ''0123456789-+''"

section \<open>Calls to the generative model (utils/gemini.ts)\<close>

datatype js_error = Error string | SyntaxError | TypeError

text \<open>
  What the awaited \<open>model.generateContent(...)\<close> gives the code: the promise rejects,
  \<open>result.response\<close> is missing, \<open>response.text()\<close> throws, or it returns a text.
\<close>

datatype gen_outcome =
    CallRejects js_error
  | NoResponse
  | TextThrows js_error
  | Text string

text \<open>
  The browser's part: \<open>JSON.parse\<close> (\<open>None\<close> is its \<open>SyntaxError\<close>), the number that
  \<open>Math.random()\<close> returns, \<open>new Date()\<close> by its UTC fields, \<open>new Date(s)\<close> for the
  text \<open>s\<close> of a date input, and its arithmetic.
\<close>

record Env =
  JSON_parse :: "string \<Rightarrow> jsval option"
  Math_random :: real
  Date_now :: jsdate
  Date_parse :: "string \<Rightarrow> jsdate"
  arith :: Arith

text \<open>\<open>!text || text.trim() === ''\<close>; the white space is the ASCII part of what \<open>trim\<close>
  removes.\<close>

definition is_space :: "char \<Rightarrow> bool" where
  "is_space c = (c \<in> set [CHR 0x20, CHR 0x09, CHR 0x0A, CHR 0x0B, CHR 0x0C, CHR 0x0D])"

definition blank :: "string \<Rightarrow> bool" where
  "blank text = (text = [] \<or> list_all is_space text)"

text \<open>
  \<open>text.match(/\{[\s\S]*\}/)\<close> and \<open>text.match(/\[[\s\S]*\]/)\<close>: the match starts at the
  first opening character and, the star being greedy, ends at the last closing character
  after it; \<open>None\<close> is \<open>null\<close>. The result is \<open>jsonMatch[0]\<close>.
\<close>

definition matchGreedy :: "char \<Rightarrow> char \<Rightarrow> string \<Rightarrow> string option" where
  "matchGreedy l r text =
     (let s = dropWhile (\<lambda>c. c \<noteq> l) text in
      if s = [] then None
      else if r \<in> set (tl s)
        then Some (l # rev (dropWhile (\<lambda>c. c \<noteq> r) (rev (tl s))))
        else None)"

text \<open>Reading a property: \<open>undefined\<close> where there is none; on \<open>null\<close> and \<open>undefined\<close>
  the access throws a \<open>TypeError\<close>, which the callers test with \<open>nullish\<close>.\<close>

definition getProp :: "jsval \<Rightarrow> string \<Rightarrow> jsval" where
  "getProp v k =
     (case v of
        Obj kvs \<Rightarrow> (case map_of kvs k of Some x \<Rightarrow> x | None \<Rightarrow> Undefined)
      | _ \<Rightarrow> Undefined)"

definition nullish :: "jsval \<Rightarrow> bool" where
  "nullish v = (v = Null \<or> v = Undefined)"

definition responseText :: "gen_outcome \<Rightarrow> js_error + string" where
  "responseText out =
     (case out of
        CallRejects e \<Rightarrow> Inl e
      | NoResponse \<Rightarrow> Inl (Error ''No response from Gemini API'')
      | TextThrows e \<Rightarrow> Inl e
      | Text text \<Rightarrow>
          if blank text then Inl (Error ''Empty response from Gemini API'') else Inr text)"

subsection \<open>extractReceiptData\<close>

definition cleanReceipt :: "jsval \<Rightarrow> jsval" where
  "cleanReceipt extractedData = Obj [
     (''vendor'', js_or (getProp extractedData ''vendor'') Null),
     (''amount'', (case getProp extractedData ''amount'' of Num x \<Rightarrow> Num x | _ \<Rightarrow> Null)),
     (''date'', js_or (getProp extractedData ''date'') Null),
     (''category'', js_or (getProp extractedData ''category'') (Str ''Others'')),
     (''items'', (case getProp extractedData ''items'' of Arr xs \<Rightarrow> Arr xs | _ \<Rightarrow> Arr []))]"

text \<open>The object of the \<open>catch\<close> block: \<open>Math.floor(Math.random() * 1000) + 100\<close> and
  \<open>new Date().toISOString().split('T')[0]\<close>.\<close>

definition placeholderReceipt :: "Env \<Rightarrow> jsval" where
  "placeholderReceipt E = Obj [
     (''vendor'', Str ''Sample Store''),
     (''amount'', Num (of_int \<lfloor>Math_random E * 1000\<rfloor> + 100)),
     (''date'', Str (takeWhile (\<lambda>c. c \<noteq> CHR ''T'') (toISOString (Date_now E)))),
     (''category'', Str ''Shopping'')]"

text \<open>The \<open>try\<close> block; \<open>fileRead\<close> tells whether \<open>fileToGenerativePart\<close> could read the
  image (it throws otherwise).\<close>

definition extractReceiptData_try :: "Env \<Rightarrow> bool \<Rightarrow> gen_outcome \<Rightarrow> js_error + jsval" where
  "extractReceiptData_try E fileRead out =
     (if \<not> fileRead then Inl (Error ''Failed to process image file'')
      else case responseText out of
        Inl e \<Rightarrow> Inl e
      | Inr text \<Rightarrow>
          (case matchGreedy (CHR ''{'') (CHR ''}'') text of
             None \<Rightarrow> Inl (Error ''No valid JSON found in response'')
           | Some m \<Rightarrow>
               (case JSON_parse E m of
                  None \<Rightarrow> Inl SyntaxError
                | Some extractedData \<Rightarrow>
                    if nullish extractedData then Inl TypeError
                    else Inr (cleanReceipt extractedData))))"

definition extractReceiptData :: "Env \<Rightarrow> bool \<Rightarrow> gen_outcome \<Rightarrow> jsval" where
  "extractReceiptData E fileRead out =
     (case extractReceiptData_try E fileRead out of
        Inl error \<Rightarrow> placeholderReceipt E
      | Inr data \<Rightarrow> data)"

text \<open>
  The earlier copy (src/unnamed/part_004) does not test the response and returns what
  \<open>JSON.parse\<close> gives; its \<open>fileToGenerativePart\<close> never throws.
\<close>

definition legacyResponseText :: "gen_outcome \<Rightarrow> js_error + string" where
  "legacyResponseText out =
     (case out of
        CallRejects e \<Rightarrow> Inl e
      | NoResponse \<Rightarrow> Inl TypeError
      | TextThrows e \<Rightarrow> Inl e
      | Text text \<Rightarrow> Inr text)"

definition legacyExtractReceiptData_try :: "Env \<Rightarrow> gen_outcome \<Rightarrow> js_error + jsval" where
  "legacyExtractReceiptData_try E out =
     (case legacyResponseText out of
        Inl e \<Rightarrow> Inl e
      | Inr text \<Rightarrow>
          (case matchGreedy (CHR ''{'') (CHR ''}'') text of
             None \<Rightarrow> Inl (Error ''No valid JSON found in response'')
           | Some m \<Rightarrow>
               (case JSON_parse E m of
                  None \<Rightarrow> Inl SyntaxError
                | Some data \<Rightarrow> Inr data)))"

definition legacyExtractReceiptData :: "Env \<Rightarrow> gen_outcome \<Rightarrow> jsval" where
  "legacyExtractReceiptData E out =
     (case legacyExtractReceiptData_try E out of
        Inl error \<Rightarrow> placeholderReceipt E
      | Inr data \<Rightarrow> data)"

text \<open>What the code obtains from the response when all goes well: the parsed value of
  the matched fragment.\<close>

definition parsedResponse :: "Env \<Rightarrow> char \<Rightarrow> char \<Rightarrow> gen_outcome \<Rightarrow> jsval option" where
  "parsedResponse E l r out =
     (case out of
        Text text \<Rightarrow>
          (case matchGreedy l r text of None \<Rightarrow> None | Some m \<Rightarrow> JSON_parse E m)
      | _ \<Rightarrow> None)"

subsection \<open>generateFinancialInsights\<close>

text \<open>The arrow function of \<open>insights.map\<close>.\<close>

definition cleanInsight :: "jsval \<Rightarrow> js_error + AnalysisInsight" where
  "cleanInsight insight =
     (if nullish insight then Inl TypeError
      else Inr \<lparr>
        type_i = js_or (getProp insight ''type'') (Str ''info''),
        title = js_or (getProp insight ''title'') (Str ''Financial Insight''),
        message = js_or (getProp insight ''message'') (Str ''No message available''),
        recommendation = js_or (getProp insight ''recommendation'') Undefined \<rparr>)"

fun mapInsights :: "jsval list \<Rightarrow> js_error + AnalysisInsight list" where
  "mapInsights [] = Inr []"
| "mapInsights (x # xs) =
     (case cleanInsight x of
        Inl e \<Rightarrow> Inl e
      | Inr i \<Rightarrow> (case mapInsights xs of Inl e \<Rightarrow> Inl e | Inr rest \<Rightarrow> Inr (i # rest)))"

text \<open>The inner \<open>try\<close>: every error in it is thrown again as one \<open>Error\<close>.\<close>

definition parseInsights :: "Env \<Rightarrow> string \<Rightarrow> js_error + AnalysisInsight list" where
  "parseInsights E m =
     (case JSON_parse E m of
        None \<Rightarrow> Inl (Error ''Failed to parse insights JSON'')
      | Some insights \<Rightarrow>
          (case insights of
             Arr xs \<Rightarrow>
               (case mapInsights xs of
                  Inl e \<Rightarrow> Inl (Error ''Failed to parse insights JSON'')
                | Inr result \<Rightarrow> Inr result)
           | _ \<Rightarrow> Inl (Error ''Failed to parse insights JSON'')))"

definition generateFinancialInsights_try :: "Env \<Rightarrow> gen_outcome \<Rightarrow> js_error + AnalysisInsight list" where
  "generateFinancialInsights_try E out =
     (case responseText out of
        Inl e \<Rightarrow> Inl e
      | Inr text \<Rightarrow>
          (case matchGreedy (CHR ''['') (CHR '']'') text of
             None \<Rightarrow> Inl (Error ''No valid JSON array found in response'')
           | Some m \<Rightarrow> parseInsights E m))"

text \<open>The second argument of the source, \<open>accounts\<close>, is not used by it.\<close>

definition generateFinancialInsights ::
  "Env \<Rightarrow> NumberFormat \<Rightarrow> Transaction list \<Rightarrow> gen_outcome \<Rightarrow> AnalysisInsight list" where
  "generateFinancialInsights E F transactions out =
     (case generateFinancialInsights_try E out of
        Inl error \<Rightarrow> generateFallbackInsights (arith E) F transactions
      | Inr result \<Rightarrow> result)"

definition validType :: "jsval \<Rightarrow> bool" where
  "validType v = (v = Str ''positive'' \<or> v = Str ''warning'' \<or> v = Str ''info'')"

section \<open>The transaction forms (pages/TransactionsPage.tsx, pages/UploadBillPage.tsx)\<close>

text \<open>
  What the user has typed. The amount comes from an \<open>input type="number"\<close>: \<open>None\<close> is the
  empty field, which is also what the browser reports for text that is not a number.
  The upload form has no type field; it ignores \<open>type_f\<close>.
\<close>

record TransactionFormData =
  accountId_f :: string
  type_f :: string
  amount_f :: "real option"
  category_f :: string
  description_f :: string
  date_f :: string
  notes_f :: string

datatype form_error = Message string | NumberTypeError | OneOfError

text \<open>
  The yup schema of the transactions page, through \<open>yupResolver\<close>: one error per field
  that fails, in the order of the schema. \<open>string().required\<close> refuses the empty text,
  \<open>number()\<close> refuses what is not a number, \<open>positive\<close> wants a value above zero.
\<close>

definition required :: "string \<Rightarrow> string \<Rightarrow> string \<Rightarrow> (string \<times> form_error) list" where
  "required field v msg = (if v = [] then [(field, Message msg)] else [])"

definition schema :: "TransactionFormData \<Rightarrow> (string \<times> form_error) list" where
  "schema f =
     required ''accountId'' (accountId_f f) ''Account is required''
     @ (if type_f f = [] then [(''type'', Message ''Type is required'')]
        else if type_f f \<noteq> ''income'' \<and> type_f f \<noteq> ''expense'' then [(''type'', OneOfError)]
        else [])
     @ (case amount_f f of
          None \<Rightarrow> [(''amount'', NumberTypeError)]
        | Some a \<Rightarrow> if a > 0 then [] else [(''amount'', Message ''Amount must be positive'')])
     @ required ''category'' (category_f f) ''Category is required''
     @ required ''description'' (description_f f) ''Description is required''
     @ required ''date'' (date_f f) ''Date is required''"

text \<open>
  The rules given to \<open>register\<close> on the upload page: \<open>required\<close> on five fields and
  \<open>min: { value: 0.01, message: "Amount must be positive" }\<close> on the amount.
\<close>

definition uploadRules :: "TransactionFormData \<Rightarrow> (string \<times> form_error) list" where
  "uploadRules f =
     required ''accountId'' (accountId_f f) ''Account is required''
     @ (case amount_f f of
          None \<Rightarrow> [(''amount'', Message ''Amount is required'')]
        | Some a \<Rightarrow> if a < 0.01 then [(''amount'', Message ''Amount must be positive'')] else [])
     @ required ''category'' (category_f f) ''Category is required''
     @ required ''description'' (description_f f) ''Description is required''
     @ required ''date'' (date_f f) ''Date is required''"

section \<open>The data context (contexts/DataContext.tsx)\<close>

text \<open>
  The hosted database, as the code sees it: three collections of documents, a document
  being an object. \<open>addDoc\<close>, \<open>updateDoc\<close> and \<open>deleteDoc\<close> are the SDK's; whether a call
  is refused (network, rules) and which identifier a new document gets are the
  backend's to decide.
\<close>

datatype collection = Accounts | Transactions | Investments

type_synonym document = "string \<rightharpoonup> jsval"

type_synonym firestore = "collection \<Rightarrow> (string \<rightharpoonup> document)"

datatype sdk_call =
    AddDoc collection document
  | UpdateDoc collection string document
  | DeleteDoc collection string

fun collectionOf :: "sdk_call \<Rightarrow> collection" where
  "collectionOf (AddDoc c d) = c"
| "collectionOf (UpdateDoc c i u) = c"
| "collectionOf (DeleteDoc c i) = c"

record Backend =
  refuses :: "sdk_call \<Rightarrow> firestore \<Rightarrow> js_error option"
  newId :: "collection \<Rightarrow> firestore \<Rightarrow> string"

definition sdk_apply :: "Backend \<Rightarrow> sdk_call \<Rightarrow> firestore \<Rightarrow> js_error + firestore" where
  "sdk_apply B call db =
     (case refuses B call db of
        Some e \<Rightarrow> Inl e
      | None \<Rightarrow>
          (case call of
             AddDoc c d \<Rightarrow> Inr (db(c := (db c)(newId B c db \<mapsto> d)))
           | UpdateDoc c i u \<Rightarrow>
               (case db c i of
                  None \<Rightarrow> Inl (Error ''not-found'')
                | Some d \<Rightarrow> Inr (db(c := (db c)(i \<mapsto> d ++ u))))
           | DeleteDoc c i \<Rightarrow> Inr (db(c := (db c)(i := None)))))"

text \<open>What an operation can change: the database, the notifications shown
  (\<open>toast.success\<close>, \<open>toast.error\<close>), and, to count them, the SDK calls made.\<close>

datatype toast = Success string | Failure string

record World =
  store :: firestore
  sdkCalls :: "sdk_call list"
  toasts :: "toast list"

text \<open>An awaited SDK call, and the pattern all nine operations share:
  \<open>try { await call; toast.success(ok) } catch (error) { toast.error(failed); throw error }\<close>.\<close>

definition callSdk :: "Backend \<Rightarrow> sdk_call \<Rightarrow> World \<Rightarrow> (js_error + unit) \<times> World" where
  "callSdk B call w =
     (case sdk_apply B call (store w) of
        Inl e \<Rightarrow> (Inl e, w\<lparr> sdkCalls := sdkCalls w @ [call] \<rparr>)
      | Inr db \<Rightarrow> (Inr (), w\<lparr> store := db, sdkCalls := sdkCalls w @ [call] \<rparr>))"

definition tryCall ::
  "Backend \<Rightarrow> sdk_call \<Rightarrow> string \<Rightarrow> string \<Rightarrow> World \<Rightarrow> (js_error + unit) \<times> World" where
  "tryCall B call ok failed w =
     (case callSdk B call w of
        (Inr u, w') \<Rightarrow> (Inr (), w'\<lparr> toasts := toasts w' @ [Success ok] \<rparr>)
      | (Inl error, w') \<Rightarrow> (Inl error, w'\<lparr> toasts := toasts w' @ [Failure failed] \<rparr>))"

text \<open>\<open>{ ...data, userId: user.uid, createdAt: new Date() }\<close>\<close>

definition stamped :: "Env \<Rightarrow> string \<Rightarrow> document \<Rightarrow> document" where
  "stamped E uid data = data ++ [''userId'' \<mapsto> Str uid, ''createdAt'' \<mapsto> DateV (Date_now E)]"

text \<open>The nine operations; \<open>user\<close> is the signed-in user's \<open>uid\<close>, \<open>None\<close> when there is
  none.\<close>

definition addAccount :: "Env \<Rightarrow> Backend \<Rightarrow> string option \<Rightarrow> document \<Rightarrow> World \<Rightarrow> (js_error + unit) \<times> World" where
  "addAccount E B user account w =
     (case user of
        None \<Rightarrow> (Inr (), w)
      | Some uid \<Rightarrow>
          tryCall B (AddDoc Accounts (stamped E uid account))
            ''Account added successfully!'' ''Failed to add account'' w)"

definition updateAccount :: "Backend \<Rightarrow> string \<Rightarrow> document \<Rightarrow> World \<Rightarrow> (js_error + unit) \<times> World" where
  "updateAccount B i updates w =
     tryCall B (UpdateDoc Accounts i updates)
       ''Account updated successfully!'' ''Failed to update account'' w"

definition deleteAccount :: "Backend \<Rightarrow> string \<Rightarrow> World \<Rightarrow> (js_error + unit) \<times> World" where
  "deleteAccount B i w =
     tryCall B (DeleteDoc Accounts i)
       ''Account deleted successfully!'' ''Failed to delete account'' w"

definition addTransaction :: "Env \<Rightarrow> Backend \<Rightarrow> string option \<Rightarrow> document \<Rightarrow> World \<Rightarrow> (js_error + unit) \<times> World" where
  "addTransaction E B user transaction w =
     (case user of
        None \<Rightarrow> (Inr (), w)
      | Some uid \<Rightarrow>
          tryCall B (AddDoc Transactions (stamped E uid transaction))
            ''Transaction added successfully!'' ''Failed to add transaction'' w)"

definition updateTransaction :: "Backend \<Rightarrow> string \<Rightarrow> document \<Rightarrow> World \<Rightarrow> (js_error + unit) \<times> World" where
  "updateTransaction B i updates w =
     tryCall B (UpdateDoc Transactions i updates)
       ''Transaction updated successfully!'' ''Failed to update transaction'' w"

definition deleteTransaction :: "Backend \<Rightarrow> string \<Rightarrow> World \<Rightarrow> (js_error + unit) \<times> World" where
  "deleteTransaction B i w =
     tryCall B (DeleteDoc Transactions i)
       ''Transaction deleted successfully!'' ''Failed to delete transaction'' w"

definition addInvestment :: "Env \<Rightarrow> Backend \<Rightarrow> string option \<Rightarrow> document \<Rightarrow> World \<Rightarrow> (js_error + unit) \<times> World" where
  "addInvestment E B user investment w =
     (case user of
        None \<Rightarrow> (Inr (), w)
      | Some uid \<Rightarrow>
          tryCall B (AddDoc Investments (stamped E uid investment))
            ''Investment added successfully!'' ''Failed to add investment'' w)"

definition updateInvestment :: "Backend \<Rightarrow> string \<Rightarrow> document \<Rightarrow> World \<Rightarrow> (js_error + unit) \<times> World" where
  "updateInvestment B i updates w =
     tryCall B (UpdateDoc Investments i updates)
       ''Investment updated successfully!'' ''Failed to update investment'' w"

definition deleteInvestment :: "Backend \<Rightarrow> string \<Rightarrow> World \<Rightarrow> (js_error + unit) \<times> World" where
  "deleteInvestment B i w =
     tryCall B (DeleteDoc Investments i)
       ''Investment deleted successfully!'' ''Failed to delete investment'' w"

text \<open>An invocation of one of the nine, to speak about all of them at once.\<close>

datatype operation =
    AddAccount document
  | UpdateAccount string document
  | DeleteAccount string
  | AddTransaction document
  | UpdateTransaction string document
  | DeleteTransaction string
  | AddInvestment document
  | UpdateInvestment string document
  | DeleteInvestment string

fun run :: "Env \<Rightarrow> Backend \<Rightarrow> string option \<Rightarrow> operation \<Rightarrow> World \<Rightarrow> (js_error + unit) \<times> World" where
  "run E B user (AddAccount d) w = addAccount E B user d w"
| "run E B user (UpdateAccount i u) w = updateAccount B i u w"
| "run E B user (DeleteAccount i) w = deleteAccount B i w"
| "run E B user (AddTransaction d) w = addTransaction E B user d w"
| "run E B user (UpdateTransaction i u) w = updateTransaction B i u w"
| "run E B user (DeleteTransaction i) w = deleteTransaction B i w"
| "run E B user (AddInvestment d) w = addInvestment E B user d w"
| "run E B user (UpdateInvestment i u) w = updateInvestment B i u w"
| "run E B user (DeleteInvestment i) w = deleteInvestment B i w"

text \<open>The SDK call an invocation makes when it reaches the SDK, the message of its error
  notification, and whether it is one of the guarded adds.\<close>

fun sdkCallOf :: "Env \<Rightarrow> string \<Rightarrow> operation \<Rightarrow> sdk_call" where
  "sdkCallOf E uid (AddAccount d) = AddDoc Accounts (stamped E uid d)"
| "sdkCallOf E uid (UpdateAccount i u) = UpdateDoc Accounts i u"
| "sdkCallOf E uid (DeleteAccount i) = DeleteDoc Accounts i"
| "sdkCallOf E uid (AddTransaction d) = AddDoc Transactions (stamped E uid d)"
| "sdkCallOf E uid (UpdateTransaction i u) = UpdateDoc Transactions i u"
| "sdkCallOf E uid (DeleteTransaction i) = DeleteDoc Transactions i"
| "sdkCallOf E uid (AddInvestment d) = AddDoc Investments (stamped E uid d)"
| "sdkCallOf E uid (UpdateInvestment i u) = UpdateDoc Investments i u"
| "sdkCallOf E uid (DeleteInvestment i) = DeleteDoc Investments i"

fun failureMessage :: "operation \<Rightarrow> string" where
  "failureMessage (AddAccount d) = ''Failed to add account''"
| "failureMessage (UpdateAccount i u) = ''Failed to update account''"
| "failureMessage (DeleteAccount i) = ''Failed to delete account''"
| "failureMessage (AddTransaction d) = ''Failed to add transaction''"
| "failureMessage (UpdateTransaction i u) = ''Failed to update transaction''"
| "failureMessage (DeleteTransaction i) = ''Failed to delete transaction''"
| "failureMessage (AddInvestment d) = ''Failed to add investment''"
| "failureMessage (UpdateInvestment i u) = ''Failed to update investment''"
| "failureMessage (DeleteInvestment i) = ''Failed to delete investment''"

fun isAdd :: "operation \<Rightarrow> bool" where
  "isAdd (AddAccount d) = True"
| "isAdd (AddTransaction d) = True"
| "isAdd (AddInvestment d) = True"
| "isAdd other = False"

fun isTransactionOp :: "operation \<Rightarrow> bool" where
  "isTransactionOp (AddTransaction d) = True"
| "isTransactionOp (UpdateTransaction i u) = True"
| "isTransactionOp (DeleteTransaction i) = True"
| "isTransactionOp other = False"

subsection \<open>The handlers of the pages that write transactions\<close>

text \<open>\<open>{ ...data, amount: Number(data.amount), date: new Date(data.date) }\<close>, for form data
  that passed validation with the amount \<open>a\<close>.\<close>

definition transactionData :: "Env \<Rightarrow> TransactionFormData \<Rightarrow> real \<Rightarrow> document" where
  "transactionData E f a = [
     ''accountId'' \<mapsto> Str (accountId_f f),
     ''type'' \<mapsto> Str (type_f f),
     ''amount'' \<mapsto> Num a,
     ''category'' \<mapsto> Str (category_f f),
     ''description'' \<mapsto> Str (description_f f),
     ''date'' \<mapsto> DateV (Date_parse E (date_f f)),
     ''notes'' \<mapsto> Str (notes_f f)]"

text \<open>
  \<open>handleSubmit(onSubmit)\<close> of the transactions page: the resolver's errors stop the
  submission; otherwise \<open>onSubmit\<close> updates the transaction being edited (\<open>editing\<close> is
  its id) or adds a new one, and swallows the error the context has already shown.
\<close>

definition TransactionsPage_submit ::
  "Env \<Rightarrow> Backend \<Rightarrow> string option \<Rightarrow> string option \<Rightarrow> TransactionFormData \<Rightarrow> World
     \<Rightarrow> (string \<times> form_error) list \<times> World" where
  "TransactionsPage_submit E B user editing f w =
     (case (schema f, amount_f f) of
        ([], Some a) \<Rightarrow>
          (case editing of
             Some i \<Rightarrow> ([], snd (updateTransaction B i (transactionData E f a) w))
           | None \<Rightarrow> ([], snd (addTransaction E B user (transactionData E f a) w)))
      | (errors, _) \<Rightarrow> (errors, w))"

text \<open>\<open>handleDelete\<close>, once the user has confirmed.\<close>

definition TransactionsPage_handleDelete :: "Backend \<Rightarrow> string \<Rightarrow> World \<Rightarrow> World" where
  "TransactionsPage_handleDelete B i w = snd (deleteTransaction B i w)"

text \<open>
  \<open>handleSubmit(onSubmit)\<close> of the upload page: the type is always 'expense', and the page
  adds its own success notification when \<open>addTransaction\<close> returns.
\<close>

definition UploadBillPage_submit ::
  "Env \<Rightarrow> Backend \<Rightarrow> string option \<Rightarrow> TransactionFormData \<Rightarrow> World
     \<Rightarrow> (string \<times> form_error) list \<times> World" where
  "UploadBillPage_submit E B user f w =
     (case (uploadRules f, amount_f f) of
        ([], Some a) \<Rightarrow>
          (case addTransaction E B user
                  ((transactionData E f a)(''type'' \<mapsto> Str ''expense'')) w of
             (Inr u, w') \<Rightarrow>
               ([], w'\<lparr> toasts := toasts w' @ [Success ''Transaction added successfully!''] \<rparr>)
           | (Inl error, w') \<Rightarrow> ([], w'))
      | (errors, _) \<Rightarrow> (errors, w))"

section \<open>Dates: the Date object and the date-fns functions the pages use\<close>

text \<open>
  The library functions are modelled from their documented behaviour, on calendar fields.
  A date is valid when its fields are those of a real instant.
\<close>

definition isLeapYear :: "int \<Rightarrow> bool" where
  "isLeapYear y = (y mod 4 = 0 \<and> (y mod 400 = 0 \<or> y mod 100 \<noteq> 0))"

definition daysInMonth :: "int \<Rightarrow> nat \<Rightarrow> nat" where
  "daysInMonth y m =
     (if m = 1 then (if isLeapYear y then 29 else 28)
      else if m = 3 \<or> m = 5 \<or> m = 8 \<or> m = 10 then 30 else 31)"


text \<open>
  \<open>a <= b\<close> on two dates compares their time values. The time value of a valid date grows
  with its fields read from the year down to the millisecond; \<open>timeKey\<close> is that reading
  as one number (32 slots for the day of the month), so it orders valid dates as their
  time values do. Changes of the offset between local time and UTC are not modelled.
\<close>

definition timeKey :: "jsdate \<Rightarrow> int" where
  "timeKey d =
     (((((year d * 12 + int (month d)) * 32 + int (day d)) * 24 + int (hours d)) * 60
        + int (minutes d)) * 60 + int (seconds d)) * 1000 + int (milliseconds d)"

text \<open>\<open>t.date >= start && t.date <= end\<close>\<close>

definition inPeriod :: "jsdate \<Rightarrow> jsdate \<Rightarrow> Transaction \<Rightarrow> bool" where
  "inPeriod start end t = (timeKey (date t) \<ge> timeKey start \<and> timeKey (date t) \<le> timeKey end)"

definition startOfMonth :: "jsdate \<Rightarrow> jsdate" where
  "startOfMonth d = d\<lparr> day := 1, hours := 0, minutes := 0, seconds := 0, milliseconds := 0 \<rparr>"

definition endOfMonth :: "jsdate \<Rightarrow> jsdate" where
  "endOfMonth d = d\<lparr> day := daysInMonth (year d) (month d),
                      hours := 23, minutes := 59, seconds := 59, milliseconds := 999 \<rparr>"



text \<open>
  \<open>new Date(y, i, 1)\<close> for a month index \<open>i\<close> below 12. The constructor reads a year from
  0 to 99 as 1900 + y.
\<close>

definition newDate :: "int \<Rightarrow> nat \<Rightarrow> jsdate" where
  "newDate y i = \<lparr> year = (if 0 \<le> y \<and> y \<le> 99 then 1900 + y else y), month = i, day = 1,
                   hours = 0, minutes = 0, seconds = 0, milliseconds = 0 \<rparr>"

text \<open>
  Months counted from year 0, to step through them. \<open>subMonths\<close> keeps the day of the
  month where the target month has it and takes the target's last day otherwise;
  \<open>eachMonthOfInterval\<close> gives the start of every month from that of \<open>start\<close> to that of
  \<open>end\<close>.
\<close>

definition monthIndex :: "jsdate \<Rightarrow> int" where
  "monthIndex d = year d * 12 + int (month d)"

definition monthOfIndex :: "int \<Rightarrow> jsdate" where
  "monthOfIndex k = \<lparr> year = k div 12, month = nat (k mod 12), day = 1,
                      hours = 0, minutes = 0, seconds = 0, milliseconds = 0 \<rparr>"



text \<open>\<open>format(d, "MMM")\<close>, \<open>format(d, "yyyy-MM-dd")\<close> and \<open>format(d, "yyyy-MM")\<close>. The
  pattern \<open>yyyy\<close> prints the year of the era: 1 - y for a year y that is not positive.\<close>

definition monthNames :: "string list" where
  "monthNames = [''Jan'', ''Feb'', ''Mar'', ''Apr'', ''May'', ''Jun'',
                 ''Jul'', ''Aug'', ''Sep'', ''Oct'', ''Nov'', ''Dec'']"

definition formatMMM :: "jsdate \<Rightarrow> string" where
  "formatMMM d = monthNames ! (month d mod 12)"

definition eraYear :: "int \<Rightarrow> nat" where
  "eraYear y = nat (if y > 0 then y else 1 - y)"

definition formatYearMonth :: "jsdate \<Rightarrow> string" where
  "formatYearMonth d = padStart 4 (CHR ''0'') (dec (eraYear (year d))) @ ''-'' @ pad2 (month d + 1)"

definition formatDate :: "jsdate \<Rightarrow> string" where
  "formatDate d = formatYearMonth d @ ''-'' @ pad2 (day d)"


section \<open>Monthly trends (pages/Dashboard.tsx, pages/ReportsPage.tsx)\<close>

text \<open>One point of a trend chart. The dashboard calls the last field \<open>savings\<close>.\<close>

record TrendPoint =
  month_p :: string
  income :: jsnum
  expenses :: jsnum
  net :: jsnum

text \<open>The body both helpers run for one month, given a date in it.\<close>

definition monthPoint :: "Arith \<Rightarrow> Transaction list \<Rightarrow> jsdate \<Rightarrow> TrendPoint" where
  "monthPoint A transactions monthDate =
     (let monthStart = startOfMonth monthDate;
          monthEnd = endOfMonth monthDate;
          monthTransactions = filter (inPeriod monthStart monthEnd) transactions;
          income = totalOf A Income monthTransactions;
          expenses = totalOf A Expense monthTransactions
      in \<lparr> month_p = formatMMM monthDate, income = income, expenses = expenses,
           net = js_sub A income expenses \<rparr>)"

text \<open>\<open>getMonthlyTrend(transactions, year)\<close> of the reports page: the loop over
  \<open>i = 0, ..., 11\<close> with \<open>monthDate = new Date(year.getFullYear(), i, 1)\<close>.\<close>

definition getMonthlyTrend :: "Arith \<Rightarrow> Transaction list \<Rightarrow> jsdate \<Rightarrow> TrendPoint list" where
  "getMonthlyTrend A transactions yr =
     map (\<lambda>i. monthPoint A transactions (newDate (year yr) i)) [0 ..< 12]"




section \<open>CSV export (pages/ReportsPage.tsx, downloadCSV)\<close>



text \<open>\<open>Array.prototype.join\<close> and \<open>String.prototype.split\<close> with a one-character
  separator.\<close>

fun joinWith :: "char \<Rightarrow> string list \<Rightarrow> string" where
  "joinWith sep [] = []"
| "joinWith sep [x] = x"
| "joinWith sep (x # y # ys) = x @ sep # joinWith sep (y # ys)"

fun split :: "char \<Rightarrow> string \<Rightarrow> string list" where
  "split sep [] = [[]]"
| "split sep (c # cs) =
     (if c = sep then [] # split sep cs
      else (case split sep cs of [] \<Rightarrow> [[c]] | f # fs \<Rightarrow> (c # f) # fs))"

definition typeString :: "txn_type \<Rightarrow> string" where
  "typeString k = (case k of Income \<Rightarrow> ''income'' | Expense \<Rightarrow> ''expense'')"

text \<open>\<open>accounts.find(a => a.id === t.accountId)?.name || "Unknown"\<close>\<close>

definition accountName :: "Account list \<Rightarrow> Transaction \<Rightarrow> string" where
  "accountName accounts t =
     (case find (\<lambda>a. id_a a = accountId t) accounts of
        None \<Rightarrow> ''Unknown''
      | Some account \<Rightarrow> if name_a account = [] then ''Unknown'' else name_a account)"

text \<open>One row; \<open>numToString\<close> is how \<open>join\<close> prints the number \<open>t.amount\<close>.\<close>

definition csvRow :: "(real \<Rightarrow> string) \<Rightarrow> Account list \<Rightarrow> Transaction \<Rightarrow> string list" where
  "csvRow numToString accounts t =
     [formatDate (date t), typeString (type_t t), numToString (amount t),
      category t, description t, accountName accounts t]"






section \<open>Sample data for the closed instances\<close>

text \<open>An arithmetic that rounds nothing within range: it stands for the double arithmetic
  on sums that are doubles themselves.\<close>

definition exactArith :: Arith where
  "exactArith = \<lparr> nearest = (\<lambda>x. x) \<rparr>"

definition sampleFormat :: NumberFormat where
  "sampleFormat = \<lparr> toFixed1 = (\<lambda>x. ''#.#''), toLocaleString = (\<lambda>x. ''#,###'') \<rparr>"

definition mkDate :: "int \<Rightarrow> nat \<Rightarrow> nat \<Rightarrow> jsdate" where
  "mkDate y m d = \<lparr> year = y, month = m, day = d,
                    hours = 12, minutes = 30, seconds = 0, milliseconds = 0 \<rparr>"

definition mkTxn :: "string \<Rightarrow> string \<Rightarrow> txn_type \<Rightarrow> real \<Rightarrow> string \<Rightarrow> string \<Rightarrow> jsdate \<Rightarrow> Transaction" where
  "mkTxn i acct k a c descr d = \<lparr>
     id_t = i, accountId = acct, type_t = k, amount = a, category = c, description = descr,
     date = d, notes_t = None, receiptUrl = None, createdAt_t = d \<rparr>"

definition salary :: Transaction where
  "salary = mkTxn ''t1'' ''acc1'' Income 1000 ''Salary'' ''March salary'' (mkDate 2024 2 1)"

definition rent :: Transaction where
  "rent = mkTxn ''t2'' ''acc1'' Expense 500 ''Bills & Utilities'' ''Rent'' (mkDate 2024 2 3)"

definition groceries :: Transaction where
  "groceries = mkTxn ''t3'' ''acc1'' Expense 150 ''Food & Dining'' ''Groceries'' (mkDate 2024 2 9)"

definition fuel :: Transaction where
  "fuel = mkTxn ''t4'' ''acc2'' Expense 100 ''Transportation'' ''Fuel'' (mkDate 2024 3 2)"

definition cinema :: Transaction where
  "cinema = mkTxn ''t5'' ''acc2'' Expense 100 ''Entertainment'' ''Cinema'' (mkDate 2024 3 20)"

lemmas sample_defs =
  sampleFormat_def mkDate_def mkTxn_def salary_def rent_def groceries_def fuel_def cinema_def

text \<open>A stand-in for \<open>JSON.parse\<close> on the two answers used below.\<close>

definition alertAnswer :: string where
  \<open>alertAnswer = ''Here you go: [{"type": "alert", "message": "Rent is 50% of income"}]''\<close>

definition sampleParse :: "string \<Rightarrow> jsval option" where
  \<open>sampleParse s =
     (if s = ''[{"type": "alert", "message": "Rent is 50% of income"}]''
      then Some (Arr [Obj [(''type'', Str ''alert''),
                           (''message'', Str ''Rent is 50% of income'')]])
      else if s = ''{"vendor": "Cafe", "amount": 12.5}''
      then Some (Obj [(''vendor'', Str ''Cafe''), (''amount'', Num 12.5)])
      else None)\<close>

definition sampleEnv :: Env where
  "sampleEnv = \<lparr> JSON_parse = sampleParse, Math_random = 1 / 2,
                  Date_now = \<lparr> year = 2024, month = 2, day = 9, hours = 18, minutes = 5,
                               seconds = 7, milliseconds = 42 \<rparr>,
                  Date_parse = (\<lambda>s. mkDate 2024 2 9), arith = exactArith \<rparr>"

text \<open>A backend that refuses every write to the transactions, and an empty world.\<close>

definition offlineBackend :: Backend where
  "offlineBackend = \<lparr>
     refuses = (\<lambda>call db. case call of
                  AddDoc c d \<Rightarrow> if c = Transactions then Some (Error ''unavailable'') else None
                | UpdateDoc c i u \<Rightarrow> if c = Transactions then Some (Error ''unavailable'') else None
                | DeleteDoc c i \<Rightarrow> if c = Transactions then Some (Error ''unavailable'') else None),
     newId = (\<lambda>c db. ''doc1'') \<rparr>"

definition emptyWorld :: World where
  "emptyWorld = \<lparr> store = (\<lambda>c. Map.empty), sdkCalls = [], toasts = [] \<rparr>"

definition sampleForm :: TransactionFormData where
  "sampleForm = \<lparr> accountId_f = ''acc1'', type_f = ''expense'', amount_f = Some (-5),
                   category_f = ''Shopping'', description_f = ''Refund'',
                   date_f = ''2024-03-09'', notes_f = '''' \<rparr>"

text \<open>A backend that accepts every write, and a world with one account.\<close>

definition onlineBackend :: Backend where
  "onlineBackend = \<lparr> refuses = (\<lambda>call db. None), newId = (\<lambda>c db. ''doc1'') \<rparr>"

definition bankWorld :: World where
  "bankWorld = \<lparr>
     store = (\<lambda>c. Map.empty)(Accounts := [''acc1'' \<mapsto>
                [''name'' \<mapsto> Str ''Savings'', ''type'' \<mapsto> Str ''bank'',
                 ''balance'' \<mapsto> Num 1000, ''userId'' \<mapsto> Str ''u1'']]),
     sdkCalls = [], toasts = [] \<rparr>"

definition rentDoc :: document where
  "rentDoc = [''accountId'' \<mapsto> Str ''acc1'', ''type'' \<mapsto> Str ''expense'',
              ''amount'' \<mapsto> Num 500]"

text \<open>Accounts, a printer of whole amounts, and a transaction of the year 50.\<close>

definition savingsAccount :: Account where
  "savingsAccount = \<lparr> id_a = ''acc1'', name_a = ''Savings'', type_a = ''bank'',
                       balance = 1000, createdAt_a = mkDate 2024 0 1 \<rparr>"

definition wholeToString :: "real \<Rightarrow> string" where
  "wholeToString x = (if x < 0 then ''-'' else '''') @ dec (nat \<lfloor>\<bar>x\<bar>\<rfloor>)"


definition dinner :: Transaction where
  "dinner = mkTxn ''t6'' ''acc1'' Expense 80 ''Food & Dining'' ''Dinner, with friends'' (mkDate 2024 2 21)"




section \<open>Properties of JavaScript numbers\<close>


lemma fl_not_NaN: "fl A x \<noteq> NaN"
  by (simp add: fl_def)









section \<open>Properties of the fallback insights\<close>









lemma savingsRate_formula:
  "js_gt (totalOf A Income ts) 0 \<Longrightarrow>
     savingsRate A ts =
       js_times A (js_div A (js_sub A (totalOf A Income ts) (totalOf A Expense ts))
                            (totalOf A Income ts)) 100"
  by (simp add: savingsRate_def Let_def)



lemma legacy_rate_above_20:
  "js_gt (legacySavingsRate A ts) 20 \<Longrightarrow>
     legacyFallbackInsights A F ts =
       legacyExcellentSavings F (legacySavingsRate A ts) #
       (if length ts > 0
        then (case topExpenseEntry A (expenseCategories A ts) of
                None \<Rightarrow> []
              | Some (c, a) \<Rightarrow> [legacyTopCategory F c a])
        else [])"
  unfolding legacyFallbackInsights_def Let_def
  by (simp only: if_True append_Cons append_Nil)

lemma legacy_excellent_first:
  "\<exists>i \<in> set (legacyExcellentSavings F r # rest).
      type_i i = Str ''positive'' \<and> title i = Str ''Excellent Savings Rate''"
  by (simp add: legacyExcellentSavings_def)

subsection \<open>The sample arithmetic\<close>


lemma overflowLimit_large: "10 ^ 300 < overflowLimit"
  by (simp add: overflowLimit_def)

lemma fl_exact_small: "\<bar>x\<bar> \<le> 10 ^ 300 \<Longrightarrow> fl exactArith x = Fin x"
  using overflowLimit_large by (auto simp: fl_def exactArith_def)


lemma sample_income_total: "totalOf exactArith Income [salary, rent] = Fin 1000"
  by (simp add: totalOf_def sumAmounts_def sample_defs fl_exact_small)

lemma sample_expense_total: "totalOf exactArith Expense [salary, rent] = Fin 500"
  by (simp add: totalOf_def sumAmounts_def sample_defs fl_exact_small)

lemma sample_rate_50: "savingsRate exactArith [salary, rent] = Fin 50"
  by (simp add: savingsRate_def sample_income_total sample_expense_total js_sub_def
                fl_exact_small)

lemma sample_legacy_rate_50: "legacySavingsRate exactArith [salary, rent] = Fin 50"
  by (simp add: legacySavingsRate_def sample_income_total sample_expense_total js_sub_def
                fl_exact_small)

text \<open>
  Claim C7. When \<open>generateFallbackInsights\<close> runs on a non-empty transaction list whose
  savings rate is above 20, the returned list contains an insight of type 'positive' about
  the savings rate (the one titled 'Excellent Savings Rate'). The rate that
  \<open>generateFallbackInsights\<close> computes is (total income - total expenses) / total income
  * 100 when the income total is positive, each operation being the one of JavaScript
  numbers. The same holds for the inline fallback of the earlier copy, with the rate that
  it computes.
\<close>

theorem fallback_positive_when_rate_above_20:
  assumes "transactions \<noteq> []"
  shows "(js_gt (savingsRate A transactions) 20 \<longrightarrow>
            (\<exists>i \<in> set (generateFallbackInsights A F transactions).
               type_i i = Str ''positive'' \<and> title i = Str ''Excellent Savings Rate''))
       \<and> (js_gt (totalOf A Income transactions) 0 \<longrightarrow>
            savingsRate A transactions =
              js_times A
                (js_div A (js_sub A (totalOf A Income transactions)
                                    (totalOf A Expense transactions))
                          (totalOf A Income transactions)) 100)
       \<and> (js_gt (legacySavingsRate A transactions) 20 \<longrightarrow>
            (\<exists>i \<in> set (legacyFallbackInsights A F transactions).
               type_i i = Str ''positive'' \<and> title i = Str ''Excellent Savings Rate''))"
proof (intro conjI impI)
  assume "js_gt (savingsRate A transactions) 20"
  with assms show "\<exists>i \<in> set (generateFallbackInsights A F transactions).
      type_i i = Str ''positive'' \<and> title i = Str ''Excellent Savings Rate''"
    by (simp add: generateFallbackInsights_def savingsInsights_def excellentSavings_def)
next
  assume "js_gt (totalOf A Income transactions) 0"
  then show "savingsRate A transactions =
      js_times A
        (js_div A (js_sub A (totalOf A Income transactions)
                            (totalOf A Expense transactions))
                  (totalOf A Income transactions)) 100"
    by (rule savingsRate_formula)
next
  assume gt: "js_gt (legacySavingsRate A transactions) 20"
  show "\<exists>i \<in> set (legacyFallbackInsights A F transactions).
      type_i i = Str ''positive'' \<and> title i = Str ''Excellent Savings Rate''"
    by (simp only: legacy_rate_above_20 [OF gt]) (rule legacy_excellent_first)
qed

theorem fallback_positive_when_rate_above_20_witness:
  "[salary, rent] \<noteq> []
   \<and> js_gt (totalOf exactArith Income [salary, rent]) 0
   \<and> savingsRate exactArith [salary, rent] = Fin 50
   \<and> js_gt (savingsRate exactArith [salary, rent]) 20
   \<and> js_gt (legacySavingsRate exactArith [salary, rent]) 20
   \<and> (\<exists>i \<in> set (generateFallbackInsights exactArith sampleFormat [salary, rent]).
         type_i i = Str ''positive'' \<and> title i = Str ''Excellent Savings Rate'')
   \<and> (\<exists>i \<in> set (legacyFallbackInsights exactArith sampleFormat [salary, rent]).
         type_i i = Str ''positive'' \<and> title i = Str ''Excellent Savings Rate'')"
proof -
  have ne: "[salary, rent] \<noteq> []" by simp
  have r1: "js_gt (savingsRate exactArith [salary, rent]) 20" by (simp add: sample_rate_50)
  have r2: "js_gt (legacySavingsRate exactArith [salary, rent]) 20"
    by (simp add: sample_legacy_rate_50)
  have i: "js_gt (totalOf exactArith Income [salary, rent]) 0"
    by (simp add: sample_income_total)
  show ?thesis
    using fallback_positive_when_rate_above_20 [OF ne, of exactArith sampleFormat] ne r1 r2 i
          sample_rate_50
    by blast
qed

subsection \<open>An income total that overflows\<close>

















section \<open>Properties of the calls to the generative model\<close>

subsection \<open>Printed dates\<close>

lemma digit10_mem: "digit10 n \<in> set ''0123456789''"
  unfolding digit10_def by (rule nth_mem) simp

lemma dec_digits: "set (dec n) \<subseteq> set ''0123456789''"
proof (induction n rule: dec.induct)
  case (1 n)
  show ?case
  proof (cases "n < 10")
    case True
    then have "dec n = [digit10 n]" by (simp add: dec.simps)
    then show ?thesis using digit10_mem [of n] by simp
  next
    case False
    then have "dec n = dec (n div 10) @ [digit10 n]" by (simp add: dec.simps)
    then show ?thesis using 1 False digit10_mem [of n] by simp
  qed
qed

lemma digits_date_chars: "set ''0123456789'' \<subseteq> date_chars"
  by (simp add: date_chars_def)

lemma signs_date_chars:
  "CHR ''-'' \<in> date_chars" "CHR ''+'' \<in> date_chars" "CHR ''0'' \<in> date_chars"
  by (simp_all add: date_chars_def)

lemma not_date_chars:
  "CHR ''T'' \<notin> date_chars" "CHR '','' \<notin> date_chars" "CHR 0x0A \<notin> date_chars"
  by (simp_all add: date_chars_def)

lemma dec_date_chars: "set (dec n) \<subseteq> date_chars"
  using dec_digits [of n] digits_date_chars by (rule subset_trans)

lemma replicate_zero_date_chars: "set (replicate k (CHR ''0'')) \<subseteq> date_chars"
  by (cases "k = 0") (simp_all add: signs_date_chars)

lemma padStart_date_chars: "set (padStart k (CHR ''0'') (dec n)) \<subseteq> date_chars"
  unfolding padStart_def set_append
  using replicate_zero_date_chars dec_date_chars by (rule Un_least)

lemma pad2_date_chars: "set (pad2 n) \<subseteq> date_chars"
  unfolding pad2_def by (rule padStart_date_chars)

lemma isoYear_date_chars: "set (isoYear y) \<subseteq> date_chars"
proof (cases "0 \<le> y \<and> y \<le> 9999")
  case True
  then have "isoYear y = padStart 4 (CHR ''0'') (dec (nat y))" by (simp add: isoYear_def)
  then show ?thesis by (simp only: padStart_date_chars)
next
  case False
  show ?thesis
  proof (cases "y < 0")
    case True
    with False have "isoYear y = CHR ''-'' # padStart 6 (CHR ''0'') (dec (nat \<bar>y\<bar>))"
      by (simp add: isoYear_def)
    then show ?thesis using padStart_date_chars [of 6 "nat \<bar>y\<bar>"] signs_date_chars(1) by simp
  next
    case pos: False
    with False have "isoYear y = CHR ''+'' # padStart 6 (CHR ''0'') (dec (nat \<bar>y\<bar>))"
      by (simp add: isoYear_def)
    then show ?thesis using padStart_date_chars [of 6 "nat \<bar>y\<bar>"] signs_date_chars(2) by simp
  qed
qed

lemma isoDay_date_chars: "set (isoDay d) \<subseteq> date_chars"
  using isoYear_date_chars [of "year d"] pad2_date_chars [of "month d + 1"]
        pad2_date_chars [of "day d"] signs_date_chars(1)
  by (simp add: isoDay_def)

lemma toISOString_split_T: "takeWhile (\<lambda>c. c \<noteq> CHR ''T'') (toISOString d) = isoDay d"
proof -
  have "\<And>x. x \<in> set (isoDay d) \<Longrightarrow> x \<noteq> CHR ''T''"
    using isoDay_date_chars [of d] not_date_chars(1) by blast
  then have "takeWhile (\<lambda>c. c \<noteq> CHR ''T'') (isoDay d @ CHR ''T'' # rest) = isoDay d" for rest
    by (simp add: takeWhile_append2)
  then show ?thesis
    by (simp only: toISOString_def append_Cons append_Nil)
qed

subsection \<open>extractReceiptData\<close>

lemma getProp_placeholder:
  "getProp (placeholderReceipt E) ''vendor'' = Str ''Sample Store''"
  "getProp (placeholderReceipt E) ''category'' = Str ''Shopping''"
  "getProp (placeholderReceipt E) ''date'' = Str (isoDay (Date_now E))"
  "getProp (placeholderReceipt E) ''amount'' = Num (of_int \<lfloor>Math_random E * 1000\<rfloor> + 100)"
  by (simp_all add: getProp_def placeholderReceipt_def toISOString_split_T)

lemma matchGreedy_Some_mem: "matchGreedy l r text = Some m \<Longrightarrow> l \<in> set text"
proof -
  assume a: "matchGreedy l r text = Some m"
  have "dropWhile (\<lambda>c. c \<noteq> l) text \<noteq> []"
    using a by (auto simp: matchGreedy_def Let_def split: if_splits)
  then show ?thesis
    by (metis (mono_tags, lifting) dropWhile_eq_Nil_conv)
qed

lemma blank_no_match:
  assumes "blank text" and "\<not> is_space l"
  shows "matchGreedy l r text = None"
proof (cases "matchGreedy l r text")
  case None
  then show ?thesis .
next
  case (Some m)
  then have "l \<in> set text" by (rule matchGreedy_Some_mem)
  moreover have "list_all is_space text" using assms(1) by (auto simp: blank_def)
  ultimately have "is_space l" by (simp add: list_all_iff)
  with assms(2) show ?thesis by simp
qed

lemma brace_not_space: "\<not> is_space (CHR ''{'')" "\<not> is_space (CHR ''['')"
  by (simp_all add: is_space_def)

lemma parsedResponse_None_try:
  assumes "parsedResponse E (CHR ''{'') (CHR ''}'') outcome = None"
  shows "\<exists>e. extractReceiptData_try E True outcome = Inl e"
proof (cases outcome)
  case (Text body)
  show ?thesis
  proof (cases "blank body")
    case True
    then show ?thesis by (simp add: extractReceiptData_try_def responseText_def Text)
  next
    case False
    then show ?thesis using assms
      by (auto simp: extractReceiptData_try_def responseText_def parsedResponse_def Text
               split: option.splits)
  qed
qed (simp_all add: extractReceiptData_try_def responseText_def)

lemma parsedResponse_None_legacy:
  assumes "parsedResponse E (CHR ''{'') (CHR ''}'') outcome = None"
  shows "\<exists>e. legacyExtractReceiptData_try E outcome = Inl e"
  using assms
  by (cases outcome)
     (auto simp: legacyExtractReceiptData_try_def legacyResponseText_def parsedResponse_def
           split: option.splits)

text \<open>Whatever the \<open>try\<close> block throws, the \<open>catch\<close> block answers with the placeholder.\<close>

lemma extractReceiptData_any_throw:
  "extractReceiptData_try E fileRead outcome = Inl e \<Longrightarrow>
     extractReceiptData E fileRead outcome = placeholderReceipt E"
  by (simp add: extractReceiptData_def)

text \<open>
  Claim C2. Whenever \<open>extractReceiptData\<close> does not obtain a parseable JSON object from
  the model response (the image cannot be read, the call rejects, the response or its text
  is missing, no brace-delimited fragment matches, or \<open>JSON.parse\<close> throws), it returns,
  as a value and not as an error, the placeholder object: vendor "Sample Store", category
  "Shopping", today's date and a random placeholder amount. The same holds for the earlier
  copy of the function.
\<close>

theorem extractReceiptData_falls_back:
  assumes "\<not> fileRead \<or> parsedResponse E (CHR ''{'') (CHR ''}'') outcome = None"
  shows "extractReceiptData E fileRead outcome = placeholderReceipt E
       \<and> (parsedResponse E (CHR ''{'') (CHR ''}'') outcome = None \<longrightarrow>
            legacyExtractReceiptData E outcome = placeholderReceipt E)
       \<and> getProp (placeholderReceipt E) ''vendor'' = Str ''Sample Store''
       \<and> getProp (placeholderReceipt E) ''category'' = Str ''Shopping''
       \<and> getProp (placeholderReceipt E) ''date'' = Str (isoDay (Date_now E))
       \<and> getProp (placeholderReceipt E) ''amount''
           = Num (of_int \<lfloor>Math_random E * 1000\<rfloor> + 100)"
proof -
  have new: "extractReceiptData E fileRead outcome = placeholderReceipt E"
  proof (cases fileRead)
    case False
    then show ?thesis by (simp add: extractReceiptData_def extractReceiptData_try_def)
  next
    case True
    with assms obtain e where "extractReceiptData_try E True outcome = Inl e"
      using parsedResponse_None_try by blast
    with True show ?thesis by (simp add: extractReceiptData_def)
  qed
  have old: "parsedResponse E (CHR ''{'') (CHR ''}'') outcome = None \<longrightarrow>
               legacyExtractReceiptData E outcome = placeholderReceipt E"
  proof
    assume "parsedResponse E (CHR ''{'') (CHR ''}'') outcome = None"
    then obtain e where "legacyExtractReceiptData_try E outcome = Inl e"
      using parsedResponse_None_legacy by blast
    then show "legacyExtractReceiptData E outcome = placeholderReceipt E"
      by (simp add: legacyExtractReceiptData_def)
  qed
  show ?thesis using new old by (simp only: getProp_placeholder simp_thms)
qed

text \<open>The placeholder amount is a whole number from 100 to 1099, \<open>Math.random()\<close> being
  at least 0 and below 1.\<close>

lemma placeholder_amount_range:
  assumes "0 \<le> Math_random E" and "Math_random E < 1"
  shows "\<exists>n::int. getProp (placeholderReceipt E) ''amount'' = Num (of_int n)
                 \<and> 100 \<le> n \<and> n \<le> 1099"
proof -
  let ?n = "\<lfloor>Math_random E * 1000\<rfloor> + 100"
  have "0 \<le> Math_random E * 1000" and "Math_random E * 1000 < 1000"
    using assms by simp_all
  then have "0 \<le> \<lfloor>Math_random E * 1000\<rfloor>" and "\<lfloor>Math_random E * 1000\<rfloor> < 1000"
    by (simp_all add: floor_less_iff)
  then have "100 \<le> ?n \<and> ?n \<le> 1099" by simp
  moreover have "getProp (placeholderReceipt E) ''amount'' = Num (of_int ?n)"
    by (simp add: getProp_placeholder)
  ultimately show ?thesis by blast
qed

lemma sample_no_json:
  "parsedResponse sampleEnv (CHR ''{'') (CHR ''}'') (Text ''I cannot read this receipt.'')
     = None"
  by (simp add: parsedResponse_def matchGreedy_def)

lemma sample_placeholder:
  "placeholderReceipt sampleEnv = Obj [
     (''vendor'', Str ''Sample Store''), (''amount'', Num 600),
     (''date'', Str ''2024-03-09''), (''category'', Str ''Shopping'')]"
  by (simp add: placeholderReceipt_def toISOString_split_T sampleEnv_def isoDay_def
        isoYear_def pad2_def padStart_def dec.simps digit10_def)

theorem extractReceiptData_falls_back_witness:
  "parsedResponse sampleEnv (CHR ''{'') (CHR ''}'') (Text ''I cannot read this receipt.'')
     = None
   \<and> extractReceiptData sampleEnv True (Text ''I cannot read this receipt.'')
       = Obj [(''vendor'', Str ''Sample Store''), (''amount'', Num 600),
              (''date'', Str ''2024-03-09''), (''category'', Str ''Shopping'')]
   \<and> legacyExtractReceiptData sampleEnv (Text ''I cannot read this receipt.'')
       = Obj [(''vendor'', Str ''Sample Store''), (''amount'', Num 600),
              (''date'', Str ''2024-03-09''), (''category'', Str ''Shopping'')]"
proof -
  let ?out = "Text ''I cannot read this receipt.''"
  have h: "\<not> True \<or> parsedResponse sampleEnv (CHR ''{'') (CHR ''}'') ?out = None"
    using sample_no_json by simp
  show ?thesis
    using extractReceiptData_falls_back [OF h] sample_no_json sample_placeholder by simp
qed

subsection \<open>generateFinancialInsights\<close>

lemma mapInsights_defaults:
  "list_all (\<lambda>x. \<not> nullish x) xs \<Longrightarrow>
     mapInsights xs = Inr (map (\<lambda>x. \<lparr>
        type_i = js_or (getProp x ''type'') (Str ''info''),
        title = js_or (getProp x ''title'') (Str ''Financial Insight''),
        message = js_or (getProp x ''message'') (Str ''No message available''),
        recommendation = js_or (getProp x ''recommendation'') Undefined \<rparr>) xs)"
  by (induction xs) (simp_all add: cleanInsight_def)

lemma parsed_array_text:
  assumes "parsedResponse E (CHR ''['') (CHR '']'') outcome = Some v"
  shows "\<exists>body m. outcome = Text body \<and> responseText outcome = Inr body
           \<and> matchGreedy (CHR ''['') (CHR '']'') body = Some m \<and> JSON_parse E m = Some v"
proof (cases outcome)
  case (Text body)
  from assms obtain m where m: "matchGreedy (CHR ''['') (CHR '']'') body = Some m"
      and p: "JSON_parse E m = Some v"
    by (auto simp: parsedResponse_def Text split: option.splits)
  have "\<not> blank body"
    using blank_no_match [of body "CHR ''[''" "CHR '']''"] m brace_not_space(2) by auto
  then have "responseText outcome = Inr body" by (simp add: responseText_def Text)
  with m p Text show ?thesis by blast
qed (use assms in \<open>simp_all add: parsedResponse_def\<close>)

lemma insights_from_array:
  assumes "parsedResponse E (CHR ''['') (CHR '']'') outcome = Some (Arr xs)"
      and "list_all (\<lambda>x. \<not> nullish x) xs"
  shows "generateFinancialInsights E F transactions outcome =
           map (\<lambda>x. \<lparr>
             type_i = js_or (getProp x ''type'') (Str ''info''),
             title = js_or (getProp x ''title'') (Str ''Financial Insight''),
             message = js_or (getProp x ''message'') (Str ''No message available''),
             recommendation = js_or (getProp x ''recommendation'') Undefined \<rparr>) xs"
proof -
  obtain body m where "responseText outcome = Inr body"
      and "matchGreedy (CHR ''['') (CHR '']'') body = Some m"
      and "JSON_parse E m = Some (Arr xs)"
    using parsed_array_text [OF assms(1)] by blast
  then show ?thesis
    by (simp add: generateFinancialInsights_def generateFinancialInsights_try_def
          parseInsights_def mapInsights_defaults [OF assms(2)])
qed

text \<open>A \<open>null\<close> in the array makes the arrow function throw; the rule-based fallback
  answers instead.\<close>

lemma mapInsights_null:
  "\<not> list_all (\<lambda>x. \<not> nullish x) xs \<Longrightarrow> \<exists>e. mapInsights xs = Inl e"
  by (induction xs) (auto simp: cleanInsight_def split: sum.splits)

lemma insights_null_element_falls_back:
  assumes "parsedResponse E (CHR ''['') (CHR '']'') outcome = Some (Arr xs)"
      and "\<not> list_all (\<lambda>x. \<not> nullish x) xs"
  shows "generateFinancialInsights E F transactions outcome
           = generateFallbackInsights (arith E) F transactions"
proof -
  obtain body m where "responseText outcome = Inr body"
      and "matchGreedy (CHR ''['') (CHR '']'') body = Some m"
      and "JSON_parse E m = Some (Arr xs)"
    using parsed_array_text [OF assms(1)] by blast
  moreover obtain e where "mapInsights xs = Inl e"
    using mapInsights_null [OF assms(2)] by blast
  ultimately show ?thesis
    by (simp add: generateFinancialInsights_def generateFinancialInsights_try_def
          parseInsights_def)
qed

text \<open>
  Claim C3, as stated, fails: the model's answer \<open>[{"type": "alert", ...}]\<close> comes back
  with the type 'alert', which is none of 'positive', 'warning', 'info'.
\<close>

lemma sample_alert_parsed:
  "parsedResponse sampleEnv (CHR ''['') (CHR '']'') (Text alertAnswer)
     = Some (Arr [Obj [(''type'', Str ''alert''), (''message'', Str ''Rent is 50% of income'')]])"
  by (simp add: parsedResponse_def matchGreedy_def alertAnswer_def sampleEnv_def sampleParse_def)

theorem insight_type_unchecked_counterexample:
  "generateFinancialInsights sampleEnv sampleFormat [] (Text alertAnswer)
     = [\<lparr> type_i = Str ''alert'', title = Str ''Financial Insight'',
          message = Str ''Rent is 50% of income'', recommendation = Undefined \<rparr>]
   \<and> \<not> validType (Str ''alert'')"
proof -
  have "list_all (\<lambda>x. \<not> nullish x)
          [Obj [(''type'', Str ''alert''), (''message'', Str ''Rent is 50% of income'')]]"
    by (simp add: nullish_def)
  from insights_from_array [OF sample_alert_parsed this]
  show ?thesis by (simp add: getProp_def js_or_def validType_def)
qed

text \<open>
  Claim C3, amended. For every insights array parsed from the model response whose
  elements are not \<open>null\<close>, \<open>generateFinancialInsights\<close> returns one insight per element,
  in order; in each, a missing or falsy type, title or message is replaced by 'info',
  'Financial Insight' or 'No message available', and any other value is passed through
  unchanged. So the returned type is one of 'positive', 'warning', 'info' exactly when the
  model's type was one of them or was missing or falsy.
\<close>

theorem insights_defaults_and_passthrough:
  assumes "parsedResponse E (CHR ''['') (CHR '']'') outcome = Some (Arr xs)"
      and "list_all (\<lambda>x. \<not> nullish x) xs"
      and "k < length xs"
  shows "length (generateFinancialInsights E F transactions outcome) = length xs
       \<and> type_i (generateFinancialInsights E F transactions outcome ! k)
           = (if truthy (getProp (xs ! k) ''type'') then getProp (xs ! k) ''type''
              else Str ''info'')
       \<and> title (generateFinancialInsights E F transactions outcome ! k)
           = (if truthy (getProp (xs ! k) ''title'') then getProp (xs ! k) ''title''
              else Str ''Financial Insight'')
       \<and> message (generateFinancialInsights E F transactions outcome ! k)
           = (if truthy (getProp (xs ! k) ''message'') then getProp (xs ! k) ''message''
              else Str ''No message available'')
       \<and> (validType (type_i (generateFinancialInsights E F transactions outcome ! k))
            \<longleftrightarrow> (validType (getProp (xs ! k) ''type'')
                 \<or> \<not> truthy (getProp (xs ! k) ''type'')))"
proof -
  have v: "validType (Str ''info'')" by (simp add: validType_def)
  show ?thesis
    using assms(3) v
    by (auto simp: insights_from_array [OF assms(1,2)] js_or_def)
qed

theorem insights_defaults_and_passthrough_witness:
  "parsedResponse sampleEnv (CHR ''['') (CHR '']'') (Text alertAnswer)
     = Some (Arr [Obj [(''type'', Str ''alert''), (''message'', Str ''Rent is 50% of income'')]])
   \<and> length (generateFinancialInsights sampleEnv sampleFormat [] (Text alertAnswer)) = 1
   \<and> type_i (generateFinancialInsights sampleEnv sampleFormat [] (Text alertAnswer) ! 0)
       = Str ''alert''
   \<and> title (generateFinancialInsights sampleEnv sampleFormat [] (Text alertAnswer) ! 0)
       = Str ''Financial Insight''
   \<and> message (generateFinancialInsights sampleEnv sampleFormat [] (Text alertAnswer) ! 0)
       = Str ''Rent is 50% of income''"
proof -
  let ?xs = "[Obj [(''type'', Str ''alert''), (''message'', Str ''Rent is 50% of income'')]]"
  have n: "list_all (\<lambda>x. \<not> nullish x) ?xs" by (simp add: nullish_def)
  have k: "(0::nat) < length ?xs" by simp
  show ?thesis
    using insights_defaults_and_passthrough [OF sample_alert_parsed n k, of sampleFormat "[]"]
          sample_alert_parsed
    by (simp add: getProp_def)
qed

text \<open>The insights of the rule-based fallback all carry one of the three declared types.\<close>

lemma fallback_types_valid:
  "list_all (\<lambda>i. validType (type_i i)) (generateFallbackInsights A F transactions)"
  by (auto simp: generateFallbackInsights_def savingsInsights_def categoryInsights_def
        frequencyInsights_def gettingStarted_def excellentSavings_def lowSavings_def
        overspending_def topCategory_def moreDataNeeded_def validType_def Let_def
        split: option.splits)

section \<open>Properties of the transaction forms\<close>

lemma schema_amount_error:
  "amount_f f = Some a \<Longrightarrow> a \<le> 0 \<Longrightarrow>
     (''amount'', Message ''Amount must be positive'') \<in> set (schema f)"
  by (simp add: schema_def)

lemma uploadRules_amount_error:
  "amount_f f = Some a \<Longrightarrow> a \<le> 0 \<Longrightarrow>
     (''amount'', Message ''Amount must be positive'') \<in> set (uploadRules f)"
  by (simp add: uploadRules_def)

lemma TransactionsPage_submit_errors:
  "schema f \<noteq> [] \<Longrightarrow> TransactionsPage_submit E B user editing f w = (schema f, w)"
  by (cases "schema f") (simp_all add: TransactionsPage_submit_def)

lemma UploadBillPage_submit_errors:
  "uploadRules f \<noteq> [] \<Longrightarrow> UploadBillPage_submit E B user f w = (uploadRules f, w)"
  by (cases "uploadRules f") (simp_all add: UploadBillPage_submit_def)

text \<open>
  Claim C6. Both transaction forms reject every submission whose amount is zero or
  negative: the validation reports "Amount must be positive" for the amount field, and the
  submission ends there, with nothing written and nothing notified.
\<close>

theorem amount_zero_or_negative_rejected:
  assumes "amount_f f = Some a" and "a \<le> 0"
  shows "(''amount'', Message ''Amount must be positive'') \<in> set (schema f)
       \<and> TransactionsPage_submit E B user editing f w = (schema f, w)
       \<and> (''amount'', Message ''Amount must be positive'') \<in> set (uploadRules f)
       \<and> UploadBillPage_submit E B user f w = (uploadRules f, w)"
proof -
  have s: "(''amount'', Message ''Amount must be positive'') \<in> set (schema f)"
    using assms by (rule schema_amount_error)
  have u: "(''amount'', Message ''Amount must be positive'') \<in> set (uploadRules f)"
    using assms by (rule uploadRules_amount_error)
  have "schema f \<noteq> []" using s by auto
  moreover have "uploadRules f \<noteq> []" using u by auto
  ultimately show ?thesis
    using s u TransactionsPage_submit_errors UploadBillPage_submit_errors by simp
qed

theorem amount_zero_or_negative_rejected_witness:
  "amount_f sampleForm = Some (-5) \<and> (-5::real) \<le> 0
   \<and> TransactionsPage_submit sampleEnv onlineBackend (Some ''u1'') None sampleForm bankWorld
       = ([(''amount'', Message ''Amount must be positive'')], bankWorld)
   \<and> UploadBillPage_submit sampleEnv onlineBackend (Some ''u1'') sampleForm bankWorld
       = ([(''amount'', Message ''Amount must be positive'')], bankWorld)"
proof -
  have a: "amount_f sampleForm = Some (-5)" by (simp add: sampleForm_def)
  have n: "(-5::real) \<le> 0" by simp
  have s: "schema sampleForm = [(''amount'', Message ''Amount must be positive'')]"
    by (simp add: schema_def required_def sampleForm_def)
  have u: "uploadRules sampleForm = [(''amount'', Message ''Amount must be positive'')]"
    by (simp add: uploadRules_def required_def sampleForm_def)
  show ?thesis
    using amount_zero_or_negative_rejected [OF a n, of sampleEnv onlineBackend "Some ''u1''" None bankWorld]
    by (simp add: s u a)
qed

section \<open>Properties of the data context\<close>

lemma callSdk_calls: "sdkCalls (snd (callSdk B call w)) = sdkCalls w @ [call]"
  by (simp add: callSdk_def split: sum.splits)

lemma callSdk_toasts: "toasts (snd (callSdk B call w)) = toasts w"
  by (simp add: callSdk_def split: sum.splits)

lemma callSdk_fails:
  "sdk_apply B call (store w) = Inl e \<Longrightarrow>
     fst (callSdk B call w) = Inl e \<and> store (snd (callSdk B call w)) = store w"
  by (simp add: callSdk_def)

lemma tryCall_calls: "sdkCalls (snd (tryCall B call ok failed w)) = sdkCalls w @ [call]"
proof (cases "callSdk B call w")
  case (Pair r w')
  then have "sdkCalls w' = sdkCalls w @ [call]" using callSdk_calls [of B call w] by simp
  with Pair show ?thesis by (cases r) (simp_all add: tryCall_def)
qed

lemma tryCall_fails:
  assumes "sdk_apply B call (store w) = Inl e"
  shows "fst (tryCall B call ok failed w) = Inl e
       \<and> toasts (snd (tryCall B call ok failed w)) = toasts w @ [Failure failed]
       \<and> store (snd (tryCall B call ok failed w)) = store w"
proof (cases "callSdk B call w")
  case (Pair r w')
  with callSdk_fails [OF assms] callSdk_toasts [of B call w]
  have "r = Inl e" and "store w' = store w" and "toasts w' = toasts w" by simp_all
  with Pair show ?thesis by (simp add: tryCall_def)
qed

lemma run_reaches_sdk:
  assumes "user = Some uid \<or> \<not> isAdd op"
  shows "\<exists>ok. run E B user op w = tryCall B (sdkCallOf E uid op) ok (failureMessage op) w"
  using assms
  by (cases op)
     (auto simp: addAccount_def updateAccount_def deleteAccount_def addTransaction_def
        updateTransaction_def deleteTransaction_def addInvestment_def updateInvestment_def
        deleteInvestment_def)

lemma run_guarded:
  assumes "user = None" and "isAdd op"
  shows "run E B user op w = (Inr (), w)"
  using assms
  by (cases op) (simp_all add: addAccount_def addTransaction_def addInvestment_def)

text \<open>
  Claim C4, as stated, fails in its last part: an add invoked while nobody is signed in
  returns at the guard \<open>if (!user) return\<close>, and the SDK call is attempted zero times.
\<close>

theorem add_without_user_counterexample:
  "run sampleEnv offlineBackend None (AddTransaction rentDoc) emptyWorld = (Inr (), emptyWorld)
   \<and> length (sdkCalls (snd (run sampleEnv offlineBackend None (AddTransaction rentDoc) emptyWorld)))
       = 0"
  by (simp add: addTransaction_def emptyWorld_def)

text \<open>
  Claim C4, amended. Every CRUD operation of the data context that gets past its guard
  (every update and delete, and every add while a user is signed in) attempts its SDK call
  exactly once; if that call throws, the operation shows its error notification, throws
  the same error to its caller and leaves the database as it was, with no retry. An add
  invoked while no user is signed in returns without an SDK call and without a
  notification.
\<close>

theorem crud_single_attempt_and_rethrow:
  "(user = Some uid \<or> \<not> isAdd op \<longrightarrow>
      sdkCalls (snd (run E B user op w)) = sdkCalls w @ [sdkCallOf E uid op]
    \<and> (sdk_apply B (sdkCallOf E uid op) (store w) = Inl e \<longrightarrow>
         fst (run E B user op w) = Inl e
       \<and> toasts (snd (run E B user op w)) = toasts w @ [Failure (failureMessage op)]
       \<and> store (snd (run E B user op w)) = store w))
   \<and> (user = None \<and> isAdd op \<longrightarrow> run E B user op w = (Inr (), w))"
proof (intro conjI impI)
  assume a: "user = Some uid \<or> \<not> isAdd op"
  then obtain ok where r: "run E B user op w = tryCall B (sdkCallOf E uid op) ok (failureMessage op) w"
    using run_reaches_sdk by blast
  show "sdkCalls (snd (run E B user op w)) = sdkCalls w @ [sdkCallOf E uid op]"
    by (simp only: r tryCall_calls)
  assume f: "sdk_apply B (sdkCallOf E uid op) (store w) = Inl e"
  show "fst (run E B user op w) = Inl e"
    using tryCall_fails [OF f] by (simp only: r)
  show "toasts (snd (run E B user op w)) = toasts w @ [Failure (failureMessage op)]"
    using tryCall_fails [OF f] by (simp only: r)
  show "store (snd (run E B user op w)) = store w"
    using tryCall_fails [OF f] by (simp only: r)
next
  assume "user = None \<and> isAdd op"
  then show "run E B user op w = (Inr (), w)" using run_guarded by blast
qed

lemma sample_refused:
  "sdk_apply offlineBackend (sdkCallOf sampleEnv ''u1'' (DeleteTransaction ''t1'')) (store bankWorld)
     = Inl (Error ''unavailable'')"
  by (simp add: sdk_apply_def offlineBackend_def)

theorem crud_single_attempt_and_rethrow_witness:
  "sdk_apply offlineBackend (sdkCallOf sampleEnv ''u1'' (DeleteTransaction ''t1'')) (store bankWorld)
     = Inl (Error ''unavailable'')
   \<and> sdkCalls (snd (run sampleEnv offlineBackend (Some ''u1'') (DeleteTransaction ''t1'') bankWorld))
       = [DeleteDoc Transactions ''t1'']
   \<and> fst (run sampleEnv offlineBackend (Some ''u1'') (DeleteTransaction ''t1'') bankWorld)
       = Inl (Error ''unavailable'')
   \<and> toasts (snd (run sampleEnv offlineBackend (Some ''u1'') (DeleteTransaction ''t1'') bankWorld))
       = [Failure ''Failed to delete transaction'']
   \<and> store (snd (run sampleEnv offlineBackend (Some ''u1'') (DeleteTransaction ''t1'') bankWorld))
       = store bankWorld
   \<and> isAdd (AddAccount rentDoc)
   \<and> run sampleEnv offlineBackend None (AddAccount rentDoc) bankWorld = (Inr (), bankWorld)"
proof -
  have g: "Some ''u1'' = Some ''u1'' \<or> \<not> isAdd (DeleteTransaction ''t1'')" by simp
  have n: "(None :: string option) = None \<and> isAdd (AddAccount rentDoc)" by simp
  have c: "sdkCalls bankWorld = []" and t: "toasts bankWorld = []"
    by (simp_all add: bankWorld_def)
  from crud_single_attempt_and_rethrow
         [of "Some ''u1''" "''u1''" "DeleteTransaction ''t1''" sampleEnv offlineBackend bankWorld
             "Error ''unavailable''"]
       crud_single_attempt_and_rethrow
         [of None "''u1''" "AddAccount rentDoc" sampleEnv offlineBackend bankWorld
             "Error ''unavailable''"]
       g n sample_refused c t
  show ?thesis by simp
qed

subsection \<open>Transactions never touch accounts\<close>

lemma sdk_apply_frame:
  "sdk_apply B call db = Inr db' \<Longrightarrow> collectionOf call \<noteq> c \<Longrightarrow> db' c = db c"
  by (cases call) (auto simp: sdk_apply_def split: option.splits)

lemma callSdk_frame:
  assumes "collectionOf call \<noteq> c"
  shows "store (snd (callSdk B call w)) c = store w c"
proof (cases "sdk_apply B call (store w)")
  case (Inl e)
  then show ?thesis by (simp add: callSdk_def)
next
  case (Inr db')
  then show ?thesis using sdk_apply_frame [OF Inr assms] by (simp add: callSdk_def)
qed

lemma tryCall_frame:
  assumes "collectionOf call \<noteq> c"
  shows "store (snd (tryCall B call ok failed w)) c = store w c"
proof (cases "callSdk B call w")
  case (Pair r w')
  then have "store w' c = store w c" using callSdk_frame [OF assms, of B w] by simp
  with Pair show ?thesis by (cases r) (simp_all add: tryCall_def)
qed

lemma addTransaction_frame:
  "c \<noteq> Transactions \<Longrightarrow> store (snd (addTransaction E B user d w)) c = store w c"
  by (cases user) (simp_all add: addTransaction_def tryCall_frame)

lemma updateTransaction_frame:
  "c \<noteq> Transactions \<Longrightarrow> store (snd (updateTransaction B i u w)) c = store w c"
  by (simp add: updateTransaction_def tryCall_frame)

lemma deleteTransaction_frame:
  "c \<noteq> Transactions \<Longrightarrow> store (snd (deleteTransaction B i w)) c = store w c"
  by (simp add: deleteTransaction_def tryCall_frame)

lemma TransactionsPage_submit_frame:
  assumes "c \<noteq> Transactions"
  shows "store (snd (TransactionsPage_submit E B user editing f w)) c = store w c"
proof (cases "schema f")
  case Nil
  show ?thesis
  proof (cases "amount_f f")
    case None
    with Nil show ?thesis by (simp add: TransactionsPage_submit_def)
  next
    case (Some a)
    with Nil assms show ?thesis
      by (cases editing)
         (simp_all add: TransactionsPage_submit_def addTransaction_frame updateTransaction_frame)
  qed
next
  case (Cons e es)
  then show ?thesis by (simp add: TransactionsPage_submit_def)
qed

lemma UploadBillPage_submit_frame:
  assumes "c \<noteq> Transactions"
  shows "store (snd (UploadBillPage_submit E B user f w)) c = store w c"
proof (cases "uploadRules f")
  case Nil
  show ?thesis
  proof (cases "amount_f f")
    case None
    with Nil show ?thesis by (simp add: UploadBillPage_submit_def)
  next
    case (Some a)
    let ?d = "(transactionData E f a)(''type'' \<mapsto> Str ''expense'')"
    obtain r w' where p: "addTransaction E B user ?d w = (r, w')" by (cases "addTransaction E B user ?d w")
    then have "store w' c = store w c"
      using addTransaction_frame [OF assms, of E B user ?d w] by simp
    with Nil Some p show ?thesis
      by (cases r) (simp_all add: UploadBillPage_submit_def)
  qed
next
  case (Cons e es)
  then show ?thesis by (simp add: UploadBillPage_submit_def)
qed

text \<open>
  Claim C5. Adding, updating or deleting a transaction never modifies an account: after
  each of the three operations of the data context, and after each handler of the pages
  that write transactions, the accounts collection (every account, with its balance and
  all its other fields) is what it was before. Nothing recomputes a balance.
\<close>

theorem transactions_never_modify_accounts:
  "(isTransactionOp op \<longrightarrow> store (snd (run E B user op w)) Accounts = store w Accounts)
   \<and> store (snd (TransactionsPage_submit E B user editing f w)) Accounts = store w Accounts
   \<and> store (TransactionsPage_handleDelete B i w) Accounts = store w Accounts
   \<and> store (snd (UploadBillPage_submit E B user f w)) Accounts = store w Accounts"
proof (intro conjI impI)
  assume "isTransactionOp op"
  then show "store (snd (run E B user op w)) Accounts = store w Accounts"
    by (cases op)
       (simp_all add: addTransaction_frame updateTransaction_frame deleteTransaction_frame)
next
  show "store (snd (TransactionsPage_submit E B user editing f w)) Accounts = store w Accounts"
    by (simp add: TransactionsPage_submit_frame)
next
  show "store (TransactionsPage_handleDelete B i w) Accounts = store w Accounts"
    by (simp add: TransactionsPage_handleDelete_def deleteTransaction_frame)
next
  show "store (snd (UploadBillPage_submit E B user f w)) Accounts = store w Accounts"
    by (simp add: UploadBillPage_submit_frame)
qed

lemma sample_add_written:
  "store (snd (run sampleEnv onlineBackend (Some ''u1'') (AddTransaction rentDoc) bankWorld))
     Transactions ''doc1'' = Some (stamped sampleEnv ''u1'' rentDoc)"
  by (simp add: addTransaction_def tryCall_def callSdk_def sdk_apply_def onlineBackend_def
        bankWorld_def)

theorem transactions_never_modify_accounts_witness:
  "isTransactionOp (AddTransaction rentDoc)
   \<and> store (snd (run sampleEnv onlineBackend (Some ''u1'') (AddTransaction rentDoc) bankWorld))
       Transactions ''doc1'' = Some (stamped sampleEnv ''u1'' rentDoc)
   \<and> store (snd (run sampleEnv onlineBackend (Some ''u1'') (AddTransaction rentDoc) bankWorld))
       Accounts = store bankWorld Accounts"
proof -
  have t: "isTransactionOp (AddTransaction rentDoc)" by simp
  show ?thesis
    using transactions_never_modify_accounts
            [of "AddTransaction rentDoc" sampleEnv onlineBackend "Some ''u1''" bankWorld]
          t sample_add_written
    by simp
qed

section \<open>Properties of the date functions\<close>









lemma monthIndex_bounds_of_month [simp]:
  "monthIndex (startOfMonth m) = monthIndex m" "monthIndex (endOfMonth m) = monthIndex m"
  by (simp_all add: monthIndex_def startOfMonth_def endOfMonth_def)





section \<open>Properties of the monthly trends\<close>




text \<open>The reports page: twelve points, those of the months of the year the constructor
  \<open>new Date(y, i, 1)\<close> makes of \<open>y\<close>, which is \<open>y\<close> itself unless \<open>y\<close> is from 0 to 99.\<close>

lemma getMonthlyTrend_length: "length (getMonthlyTrend A transactions yr) = 12"
  by (simp add: getMonthlyTrend_def)



text \<open>The dashboard: six points, those of the current month and the five before it.\<close>

lemma monthIndex_monthOfIndex: "monthIndex (monthOfIndex k) = k"
  by (simp add: monthIndex_def monthOfIndex_def)














section \<open>Properties of the CSV export\<close>





subsection \<open>Splitting what was joined\<close>

lemma split_no_sep: "sep \<notin> set s \<Longrightarrow> split sep s = [s]"
  by (induction s) auto

lemma split_field_then_sep:
  "sep \<notin> set f \<Longrightarrow> split sep (f @ sep # rest) = f # split sep rest"
  by (induction f) auto

lemma split_joinWith:
  "cells \<noteq> [] \<Longrightarrow> list_all (\<lambda>f. sep \<notin> set f) cells \<Longrightarrow>
     split sep (joinWith sep cells) = cells"
proof (induction sep cells rule: joinWith.induct)
  case (1 sep)
  then show ?case by simp
next
  case (2 sep x)
  then show ?case by (simp add: split_no_sep)
next
  case (3 sep x y ys)
  then show ?case by (simp add: split_field_then_sep)
qed

lemma formatDate_chars: "set (formatDate d) \<subseteq> date_chars"
  using padStart_date_chars [of 4 "eraYear (year d)"] pad2_date_chars [of "month d + 1"]
        pad2_date_chars [of "day d"] signs_date_chars(1)
  by (simp add: formatDate_def formatYearMonth_def)

lemma formatDate_plain:
  "CHR '','' \<notin> set (formatDate d)" "CHR 0x0A \<notin> set (formatDate d)"
  using formatDate_chars [of d] not_date_chars by blast+

lemma typeString_plain:
  "CHR '','' \<notin> set (typeString k)" "CHR 0x0A \<notin> set (typeString k)"
  by (cases k; simp add: typeString_def)+

text \<open>
  Claim C10. For every transaction whose category, description and resolved account name
  contain no comma, splitting its exported row on commas gives back exactly the six
  values that were joined: date, type, amount, category, description and account name.
  (The number as \<open>join\<close> prints it has no comma either; that is a property of the
  browser's printing of numbers, here a hypothesis on \<open>numToString\<close>.)
\<close>

theorem csv_row_roundtrip:
  assumes "CHR '','' \<notin> set (category t)"
      and "CHR '','' \<notin> set (description t)"
      and "CHR '','' \<notin> set (accountName accounts t)"
      and "CHR '','' \<notin> set (numToString (amount t))"
  shows "split (CHR '','') (joinWith (CHR '','') (csvRow numToString accounts t))
           = [formatDate (date t), typeString (type_t t), numToString (amount t),
              category t, description t, accountName accounts t]
       \<and> length (split (CHR '','') (joinWith (CHR '','') (csvRow numToString accounts t))) = 6"
proof -
  have "list_all (\<lambda>f. CHR '','' \<notin> set f) (csvRow numToString accounts t)"
    using assms formatDate_plain(1) typeString_plain(1) by (simp add: csvRow_def)
  moreover have "csvRow numToString accounts t \<noteq> []" by (simp add: csvRow_def)
  ultimately have "split (CHR '','') (joinWith (CHR '','') (csvRow numToString accounts t))
                     = csvRow numToString accounts t"
    using split_joinWith by blast
  then show ?thesis by (simp add: csvRow_def)
qed







lemma sample_row_plain:
  "CHR '','' \<notin> set (category rent)" "CHR '','' \<notin> set (description rent)"
  "CHR '','' \<notin> set (accountName [savingsAccount] rent)"
  "CHR '','' \<notin> set (wholeToString (amount rent))"
  by (simp_all add: accountName_def savingsAccount_def wholeToString_def dec.simps digit10_def
        sample_defs)

lemma sample_row:
  "[formatDate (date rent), typeString (type_t rent), wholeToString (amount rent),
    category rent, description rent, accountName [savingsAccount] rent]
     = [''2024-03-03'', ''expense'', ''500'', ''Bills & Utilities'', ''Rent'', ''Savings'']"
  by (simp add: formatDate_def formatYearMonth_def eraYear_def pad2_def padStart_def
        dec.simps digit10_def typeString_def wholeToString_def accountName_def
        savingsAccount_def sample_defs)

theorem csv_row_roundtrip_witness:
  "CHR '','' \<notin> set (category rent) \<and> CHR '','' \<notin> set (description rent)
   \<and> CHR '','' \<notin> set (accountName [savingsAccount] rent)
   \<and> CHR '','' \<notin> set (wholeToString (amount rent))
   \<and> split (CHR '','') (joinWith (CHR '','') (csvRow wholeToString [savingsAccount] rent))
       = [''2024-03-03'', ''expense'', ''500'', ''Bills & Utilities'', ''Rent'', ''Savings'']"
  using csv_row_roundtrip [of rent "[savingsAccount]" wholeToString, OF sample_row_plain]
        sample_row_plain sample_row
  by simp

text \<open>Nothing is quoted or escaped: a comma in the description gives a seventh field.\<close>

lemma csv_row_comma_in_description:
  "split (CHR '','') (joinWith (CHR '','') (csvRow wholeToString [savingsAccount] dinner))
     = [''2024-03-21'', ''expense'', ''80'', ''Food & Dining'', ''Dinner'', '' with friends'',
        ''Savings'']"
  by (simp add: csvRow_def formatDate_def formatYearMonth_def eraYear_def pad2_def padStart_def
        dec.simps digit10_def typeString_def wholeToString_def accountName_def
        savingsAccount_def dinner_def mkTxn_def mkDate_def)

text \<open>The whole file splits back into the header and the rows when no printed value
  holds a comma or a line feed.\<close>

lemma csv_content_roundtrip:
  assumes "list_all (\<lambda>r. list_all (\<lambda>f. CHR '','' \<notin> set f \<and> CHR 0x0A \<notin> set f) r) rows"
      and "list_all (\<lambda>r. r \<noteq> []) rows" and "rows \<noteq> []"
  shows "map (split (CHR '','')) (split (CHR 0x0A) (joinWith (CHR 0x0A) (map (joinWith (CHR '','')) rows)))
           = rows"
proof -
  have line_plain: "CHR 0x0A \<notin> set (joinWith (CHR '','') r)"
    if "list_all (\<lambda>f. CHR '','' \<notin> set f \<and> CHR 0x0A \<notin> set f) r" for r
    using that by (induction "CHR '',''" r rule: joinWith.induct) simp_all
  have "list_all (\<lambda>l. CHR 0x0A \<notin> set l) (map (joinWith (CHR '','')) rows)"
    using assms(1) line_plain by (simp add: list_all_iff)
  moreover have "map (joinWith (CHR '','')) rows \<noteq> []" using assms(3) by simp
  ultimately have "split (CHR 0x0A) (joinWith (CHR 0x0A) (map (joinWith (CHR '','')) rows))
                     = map (joinWith (CHR '','')) rows"
    by (rule split_joinWith [rotated])
  moreover have "map (split (CHR '','')) (map (joinWith (CHR '','')) rows) = rows"
  proof -
    have "split (CHR '','') (joinWith (CHR '','') r) = r" if "r \<in> set rows" for r
    proof -
      have "r \<noteq> []" using that assms(2) by (simp add: list_all_iff)
      moreover have "list_all (\<lambda>f. CHR '','' \<notin> set f) r"
        using that assms(1) by (simp add: list_all_iff)
      ultimately show ?thesis by (rule split_joinWith)
    qed
    then show ?thesis by (simp add: map_idI)
  qed
  ultimately show ?thesis by simp
qed

end
